theory Spec2Isabelle
  imports Complex_Main
begin

section \<open>Shared vocabulary\<close>

text \<open>
  The three modules of the repository (\<^verbatim>\<open>galmag/Grid.py\<close>, \<^verbatim>\<open>core/disk.py\<close> and
  \<^verbatim>\<open>gmf_tool/B_generators/halo_free_decay_modes.py\<close>) are embedded over the real
  numbers: every Python float is a \<open>real\<close>, every numpy array a function from its
  index to its element, so that arrays of one shape share the index type \<open>'i\<close> and an
  elementwise numpy expression is the same expression under a \<open>\<lambda>i\<close>. Rounding is not
  modelled. Where the source can divide by zero and a statement depends on it (the
  polar angle of the grid), the element type is \<open>real option\<close> and \<open>None\<close> is a numpy
  result that is not a finite number (\<open>nan\<close> or an infinity); the field formulas of the
  disk and of the halo keep HOL's total division, root and power, so their values mean
  what numpy computes only where the source divides by a non-zero number, takes the
  root of a non-negative number and raises a positive base.

  Exceptions are values: a function that can raise returns \<open>error + 'a\<close>.
\<close>

datatype error =
    ValueError | NotImplementedError | IndexError | KeyError | ZeroDivisionError
  | UnboundLocalError | OverflowError | ComplexValue

type_synonym 'i ndarray = "'i \<Rightarrow> real"

text \<open>
  \<^verbatim>\<open>scipy.special\<close> is not code of the repository: the functions imported from it are
  parameters of the model. \<open>jn_zeros\<close> may raise (scipy rejects a count below one).
\<close>

record special =
  j0 :: "real \<Rightarrow> real"
  j1 :: "real \<Rightarrow> real"
  jv :: "real \<Rightarrow> real \<Rightarrow> real"
  jn_zeros :: "nat \<Rightarrow> nat \<Rightarrow> error + real list"

definition zeros_like :: "'i ndarray \<Rightarrow> 'i ndarray" where
  "zeros_like a = (\<lambda>i. 0)"

text \<open>Python's \<^verbatim>\<open>xs[i]\<close> on a list: a negative index counts from the end.\<close>

definition py_getitem :: "'a list \<Rightarrow> int \<Rightarrow> error + 'a" where
  "py_getitem xs i =
     (if 0 \<le> i \<and> i < int (length xs) then Inr (xs ! nat i)
      else if i < 0 \<and> 0 \<le> int (length xs) + i then Inr (xs ! nat (int (length xs) + i))
      else Inl IndexError)"

section \<open>Halo free-decay modes\<close>

type_synonym 'i field = "'i ndarray \<times> 'i ndarray \<times> 'i ndarray"

text \<open>\<^verbatim>\<open>get_B_a_1(r, theta, phi, C=0.346, k=pi)\<close>\<close>

definition get_B_a_1 ::
  "special \<Rightarrow> 'i ndarray \<Rightarrow> 'i ndarray \<Rightarrow> 'i ndarray \<Rightarrow> real \<Rightarrow> real \<Rightarrow> 'i field" where
  "get_B_a_1 S r theta phi C k =
     (let separator = (\<lambda>i. r i \<le> 1);
          Q = (\<lambda>i. if separator i then r i powr (- 0.5) * jv S (3 / 2) (k * r i)
                    else r i powr (- 2) * jv S (3 / 2) k);
          Br = (\<lambda>i. C * (2 / r i) * Q i * cos (theta i));
          X = (\<lambda>i. if separator i
                    then (let y = k * r i in
                          sqrt (2 / pi) * (y ^ 2 * sin y - sin y + y * cos y)
                            / (k powr (- 0.5) * y ^ 2))
                    else - 1 * r i powr (- 2) * jv S (3 / 2) k);
          Btheta = (\<lambda>i. C * (- sin (theta i) / r i) * X i);
          Bphi = zeros_like r
      in (Br, Btheta, Bphi))"

definition a_1_C :: real where "a_1_C = 0.346"
definition a_1_k :: real where "a_1_k = pi"

text \<open>
  \<^verbatim>\<open>get_B_a_2(r, theta, phi, C=0.250, k=5.763)\<close>. The polar component is assembled from
  the auxiliary array \<open>X\<close>, which the source fills with one formula where \<open>r \<le> 1\<close> and
  with the constant \<open>0.0\<close> where \<open>r > 1\<close>. The two branches and the final product are
  named, so that each branch can be evaluated on its own.
\<close>

definition a_2_A :: "real \<Rightarrow> real" where
  "a_2_A y = 15 * sin y / y ^ 3 - 15 * cos y / y ^ 2 - 6 * (sin y / y) + cos y"

definition a_2_B :: "real \<Rightarrow> real \<Rightarrow> real" where
  "a_2_B k r =
     (let y = k * r in
        - 45 * sin y / y ^ 3 / r + 45 * cos y / y ^ 2 / r + 21 * sin y / y / r
        - k * sin y - 6 * sin y / r)"

definition a_2_X_interior :: "real \<Rightarrow> real \<Rightarrow> real" where
  "a_2_X_interior k r =
     (let y = k * r in
        a_2_A y / sqrt (2 * pi * r * y)
        - k * sqrt r * a_2_A y / sqrt (2 * pi) / y powr (3 / 2)
        + sqrt (2 / pi) * a_2_B k r / sqrt k)"

definition a_2_X_exterior :: "real \<Rightarrow> real \<Rightarrow> real" where
  "a_2_X_exterior k r = 0"

definition a_2_Btheta :: "real \<Rightarrow> real \<Rightarrow> real \<Rightarrow> real \<Rightarrow> real" where
  "a_2_Btheta C r theta X = C * (- sin theta / r) * (5 * (cos theta) ^ 2 - 1) * X"

definition get_B_a_2 ::
  "special \<Rightarrow> 'i ndarray \<Rightarrow> 'i ndarray \<Rightarrow> 'i ndarray \<Rightarrow> real \<Rightarrow> real \<Rightarrow> 'i field" where
  "get_B_a_2 S r theta phi C k =
     (let separator = (\<lambda>i. r i \<le> 1);
          Q = (\<lambda>i. if separator i then r i powr (- 0.5) * jv S (7 / 2) (k * r i)
                    else r i powr (- 4) * jv S (7 / 2) k);
          Br = (\<lambda>i. Q i * cos (theta i) * (5 * cos (2 * theta i) - 1) * C * (2 / r i));
          X = (\<lambda>i. if separator i then a_2_X_interior k (r i)
                    else a_2_X_exterior k (r i));
          Btheta = (\<lambda>i. a_2_Btheta C (r i) (theta i) (X i));
          Bphi = zeros_like r
      in (Br, Btheta, Bphi))"

definition a_2_C :: real where "a_2_C = 0.250"
definition a_2_k :: real where "a_2_k = 5.763"

text \<open>\<^verbatim>\<open>get_B_a_3(r, theta, phi, C=3.445, k=5.763)\<close>\<close>

definition get_B_a_3 ::
  "special \<Rightarrow> 'i ndarray \<Rightarrow> 'i ndarray \<Rightarrow> 'i ndarray \<Rightarrow> real \<Rightarrow> real \<Rightarrow> 'i field" where
  "get_B_a_3 S r theta phi C k =
     (let separator = (\<lambda>i. r i \<le> 1);
          Br = zeros_like r;
          Btheta = zeros_like r;
          Q = (\<lambda>i. if separator i then r i powr (- 0.5) * jv S (5 / 2) (k * r i)
                    else r i powr (- 3) * jv S (5 / 2) k);
          Bphi = (\<lambda>i. C * Q i * sin (theta i) * cos (theta i))
      in (Br, Btheta, Bphi))"

definition a_3_C :: real where "a_3_C = 3.445"
definition a_3_k :: real where "a_3_k = 5.763"

text \<open>\<^verbatim>\<open>get_B_a_4(r, theta, phi, C=0.244, k=2*pi)\<close> calls the first antisymmetric mode.\<close>

definition get_B_a_4 ::
  "special \<Rightarrow> 'i ndarray \<Rightarrow> 'i ndarray \<Rightarrow> 'i ndarray \<Rightarrow> real \<Rightarrow> real \<Rightarrow> 'i field" where
  "get_B_a_4 S r theta phi C k = get_B_a_1 S r theta phi C k"

definition a_4_C :: real where "a_4_C = 0.244"
definition a_4_k :: real where "a_4_k = 2 * pi"

text \<open>\<^verbatim>\<open>get_B_s_1(r, theta, phi, C=0.653646562698, k=4.493409457909)\<close>\<close>

definition get_B_s_1 ::
  "special \<Rightarrow> 'i ndarray \<Rightarrow> 'i ndarray \<Rightarrow> 'i ndarray \<Rightarrow> real \<Rightarrow> real \<Rightarrow> 'i field" where
  "get_B_s_1 S r theta phi C k =
     (let separator = (\<lambda>i. r i \<le> 1);
          Q = (\<lambda>i. if separator i then r i powr (- 0.5) * jv S (5 / 2) (k * r i)
                    else r i powr (- 3) * jv S (5 / 2) k);
          Br = (\<lambda>i. C * Q i * (3 * cos (theta i) ^ 2 - 1) / r i);
          X = (\<lambda>i. if separator i
                    then (let y = k * r i; siny = sin y; cosy = cos y in
                          (3 * siny / y ^ 2 - siny - 3 * cosy / y) / sqrt (2 * pi * y * r i)
                          - k * sqrt (r i) * (3 * siny / y ^ 2 - siny - 3 * cosy / y)
                              / sqrt (2 * pi) * y powr (- 3 / 2)
                          + sqrt (2 / pi * r i)
                              * (- 6 * siny * k / y ^ 3 + 6 * cosy * k / y ^ 2
                                 + 3 * siny * k / y - k * cosy)
                              / sqrt y)
                    else - 2 * r i powr (- 3) * jv S (5 / 2) k);
          Btheta = (\<lambda>i. C * (- sin (theta i) * cos (theta i) / r i) * X i);
          Bphi = zeros_like r
      in (Br, Btheta, Bphi))"

definition s_1_C :: real where "s_1_C = 0.653646562698"
definition s_1_k :: real where "s_1_k = 4.493409457909"

text \<open>\<^verbatim>\<open>get_B_s_2(r, theta, phi, C=1.32984358196, k=4.493409457909)\<close>\<close>

definition get_B_s_2 ::
  "special \<Rightarrow> 'i ndarray \<Rightarrow> 'i ndarray \<Rightarrow> 'i ndarray \<Rightarrow> real \<Rightarrow> real \<Rightarrow> 'i field" where
  "get_B_s_2 S r theta phi C k =
     (let separator = (\<lambda>i. r i \<le> 1);
          Br = zeros_like r;
          Btheta = zeros_like r;
          Q = (\<lambda>i. if separator i then r i powr (- 0.5) * jv S (3 / 2) (k * r i)
                    else r i powr (- 2) * jv S (3 / 2) k);
          Bphi = (\<lambda>i. C * Q i * sin (theta i))
      in (Br, Btheta, Bphi))"

definition s_2_C :: real where "s_2_C = 1.32984358196"
definition s_2_k :: real where "s_2_k = 4.493409457909"

text \<open>
  \<^verbatim>\<open>get_B_s_3(r, theta, phi, C=0.0169610298034, k=6.987932000501)\<close>. The source
  overwrites \<open>Q\<close> and \<open>S\<close> for the polar component; the second versions are \<open>Q2\<close>, \<open>S2\<close>.
\<close>

definition get_B_s_3 ::
  "special \<Rightarrow> 'i ndarray \<Rightarrow> 'i ndarray \<Rightarrow> 'i ndarray \<Rightarrow> real \<Rightarrow> real \<Rightarrow> 'i field" where
  "get_B_s_3 S r theta phi C k =
     (let separator = (\<lambda>i. r i \<le> 1);
          cost = (\<lambda>i. cos (theta i));
          sint = (\<lambda>i. sin (theta i));
          y = (\<lambda>i. k * r i);
          Q = (\<lambda>i. if separator i then r i powr (- 0.5) * jv S (9 / 2) (y i)
                    else r i powr (- 5) * jv S (9 / 2) k);
          S1 = (\<lambda>i. - 700 * cost i ^ 4 + 600 * cost i ^ 2 - 60);
          Br = (\<lambda>i. C * Q i * S1 i / r i);
          Q2 = (\<lambda>i. if separator i
                     then Q i / 2 + r i powr 0.5 / 2 * k
                            * (jv S (7 / 2) (y i) - jv S (11 / 2) (y i))
                     else - 4 * r i powr (- 5) * jv S (9 / 2) k);
          S2 = (\<lambda>i. - 140 * cost i ^ 3 * sint i + 60 * cost i * sint i);
          Btheta = (\<lambda>i. - C * Q2 i * S2 i / r i);
          Bphi = zeros_like r
      in (Br, Btheta, Bphi))"

definition s_3_C :: real where "s_3_C = 0.0169610298034"
definition s_3_k :: real where "s_3_k = 6.987932000501"

text \<open>\<^verbatim>\<open>get_B_s_4(r, theta, phi, C=0.539789362061, k=6.987932000501)\<close>\<close>

definition get_B_s_4 ::
  "special \<Rightarrow> 'i ndarray \<Rightarrow> 'i ndarray \<Rightarrow> 'i ndarray \<Rightarrow> real \<Rightarrow> real \<Rightarrow> 'i field" where
  "get_B_s_4 S r theta phi C k =
     (let separator = (\<lambda>i. r i \<le> 1);
          Br = zeros_like r;
          Btheta = zeros_like r;
          Q = (\<lambda>i. if separator i then r i powr (- 0.5) * jv S (7 / 2) (k * r i)
                    else r i powr (- 4) * jv S (7 / 2) k);
          S1 = (\<lambda>i. 3 * sin (theta i) * (1 - 5 * (cos (theta i)) ^ 2));
          Bphi = (\<lambda>i. - C * Q i * S1 i)
      in (Br, Btheta, Bphi))"

definition s_4_C :: real where "s_4_C = 0.539789362061"
definition s_4_k :: real where "s_4_k = 6.987932000501"

text \<open>
  The two dispatch tables hold the modes with their default constants, as a call
  \<^verbatim>\<open>f(r, theta, phi)\<close> through the table uses them.
\<close>

definition symmetric_modes_list ::
  "special \<Rightarrow> ('i ndarray \<Rightarrow> 'i ndarray \<Rightarrow> 'i ndarray \<Rightarrow> 'i field) list" where
  "symmetric_modes_list S =
     [(\<lambda>r theta phi. get_B_s_1 S r theta phi s_1_C s_1_k),
      (\<lambda>r theta phi. get_B_s_2 S r theta phi s_2_C s_2_k),
      (\<lambda>r theta phi. get_B_s_3 S r theta phi s_3_C s_3_k),
      (\<lambda>r theta phi. get_B_s_4 S r theta phi s_4_C s_4_k)]"

definition antisymmetric_modes_list ::
  "special \<Rightarrow> ('i ndarray \<Rightarrow> 'i ndarray \<Rightarrow> 'i ndarray \<Rightarrow> 'i field) list" where
  "antisymmetric_modes_list S =
     [(\<lambda>r theta phi. get_B_a_1 S r theta phi a_1_C a_1_k),
      (\<lambda>r theta phi. get_B_a_2 S r theta phi a_2_C a_2_k),
      (\<lambda>r theta phi. get_B_a_3 S r theta phi a_3_C a_3_k),
      (\<lambda>r theta phi. get_B_a_4 S r theta phi a_4_C a_4_k)]"

definition get_mode ::
  "special \<Rightarrow> 'i ndarray \<Rightarrow> 'i ndarray \<Rightarrow> 'i ndarray \<Rightarrow> int \<Rightarrow> bool \<Rightarrow> error + 'i field" where
  "get_mode S r theta phi n_mode symmetric =
     (if n_mode > 4 then Inl NotImplementedError
      else if symmetric then
        (case py_getitem (symmetric_modes_list S) (n_mode - 1) of
           Inl e \<Rightarrow> Inl e
         | Inr f \<Rightarrow> Inr (f r theta phi))
      else
        (case py_getitem (antisymmetric_modes_list S) (n_mode - 1) of
           Inl e \<Rightarrow> Inl e
         | Inr f \<Rightarrow> Inr (f r theta phi)))"

section \<open>Grid\<close>

type_synonym index3 = "nat \<times> nat \<times> nat"

text \<open>
  The dictionary built by \<^verbatim>\<open>_generate_coordinates\<close>, one field per key. The polar
  angle is the only array computed through a quotient (\<^verbatim>\<open>arccos(z / r_spherical)\<close>), so
  its elements are \<open>real option\<close>: \<open>None\<close> is a result that is not a finite number.
\<close>

record coordinates_dict =
  x_array :: "index3 \<Rightarrow> real"
  y_array :: "index3 \<Rightarrow> real"
  z_array :: "index3 \<Rightarrow> real"
  r_spherical_array :: "index3 \<Rightarrow> real"
  r_cylindrical_array :: "index3 \<Rightarrow> real"
  theta_array :: "index3 \<Rightarrow> real option"
  phi_array :: "index3 \<Rightarrow> real"

record Grid =
  box :: "(real \<times> real) \<times> (real \<times> real) \<times> (real \<times> real)"
  resolution :: "int \<times> int \<times> int"
  grid_type :: string
  coordinates_cache :: "coordinates_dict option"

text \<open>
  \<^verbatim>\<open>Grid.__init__\<close> copies its arguments and sets the cache to \<^verbatim>\<open>None\<close>. A box that is
  not 3x2 or a resolution that is not a 3-vector is excluded by the types, and a \<open>real\<close>
  of the box stands for a float. The resolution is stored in an array of 64-bit
  integers (\<^verbatim>\<open>np.empty((3,), dtype=int)\<close>): the assignment
  \<^verbatim>\<open>self.resolution[:] = resolution\<close> raises \<^verbatim>\<open>OverflowError\<close> for an entry outside
  \<open>[-2\<^sup>6\<^sup>3, 2\<^sup>6\<^sup>3)\<close>. No statement of the constructor looks at \<^verbatim>\<open>grid_type\<close>.
\<close>

definition fits_int64 :: "int \<Rightarrow> bool" where
  "fits_int64 n = (- (2 ^ 63) \<le> n \<and> n < 2 ^ 63)"

definition Grid_init ::
  "(real \<times> real) \<times> (real \<times> real) \<times> (real \<times> real) \<Rightarrow> int \<times> int \<times> int \<Rightarrow> string
     \<Rightarrow> error + Grid" where
  "Grid_init b res gt =
     (case res of (n0, n1, n2) \<Rightarrow>
        if fits_int64 n0 \<and> fits_int64 n1 \<and> fits_int64 n2
        then Inr \<lparr>box = b, resolution = res, grid_type = gt, coordinates_cache = None\<rparr>
        else Inl OverflowError)"

text \<open>
  \<^verbatim>\<open>get_prototype\<close> is \<^verbatim>\<open>np.empty(self.resolution)\<close>: uninitialised contents, so only the
  shape is returned; numpy refuses a negative dimension. \<^verbatim>\<open>_generate_coordinates\<close> calls
  it seven times with the same outcome and then rebinds all seven names, so the model
  calls it once.
\<close>

definition get_prototype :: "Grid \<Rightarrow> error + index3" where
  "get_prototype g =
     (case resolution g of (n0, n1, n2) \<Rightarrow>
        if n0 < 0 \<or> n1 < 0 \<or> n2 < 0 then Inl ValueError
        else Inr (nat n0, nat n1, nat n2))"

text \<open>
  One axis of \<^verbatim>\<open>np.mgrid[slice(start, stop, n*1j)]\<close>: \<open>\<bar>n\<bar>\<close> points, the \<open>i\<close>-th at
  \<open>i * step + start\<close>, where the step is \<open>(stop - start) / (\<bar>n\<bar> - 1)\<close> unless
  \<open>\<bar>n\<bar> = 1\<close>, when numpy leaves it at 1.
\<close>

definition mgrid_axis :: "real \<Rightarrow> real \<Rightarrow> int \<Rightarrow> nat \<Rightarrow> real" where
  "mgrid_axis start stop n i =
     (let step = (if \<bar>n\<bar> \<noteq> 1 then (stop - start) / real_of_int (\<bar>n\<bar> - 1) else 1)
      in real i * step + start)"

text \<open>
  Elementwise \<^verbatim>\<open>a / b\<close> and \<^verbatim>\<open>np.arccos\<close>: a zero divisor gives \<open>nan\<close> or an infinity and
  numpy goes on with a warning; the arc cosine of either, or of a number outside
  \<open>[-1, 1]\<close>, is \<open>nan\<close>. \<open>np_arctan2\<close> is the two-argument arc tangent with values in
  \<open>(-pi, pi]\<close>.
\<close>

definition np_divide :: "real \<Rightarrow> real \<Rightarrow> real option" where
  "np_divide a b = (if b = 0 then None else Some (a / b))"

definition np_arccos :: "real option \<Rightarrow> real option" where
  "np_arccos v =
     (case v of None \<Rightarrow> None
      | Some u \<Rightarrow> if - 1 \<le> u \<and> u \<le> 1 then Some (arccos u) else None)"

definition np_arctan2 :: "real \<Rightarrow> real \<Rightarrow> real" where
  "np_arctan2 b a =
     (if 0 < a then arctan (b / a)
      else if a < 0 \<and> 0 \<le> b then arctan (b / a) + pi
      else if a < 0 then arctan (b / a) - pi
      else if 0 < b then pi / 2
      else if b < 0 then - (pi / 2)
      else 0)"

definition generate_coordinates :: "Grid \<Rightarrow> error + coordinates_dict" where
  "generate_coordinates g =
     (case get_prototype g of
        Inl e \<Rightarrow> Inl e
      | Inr proto \<Rightarrow>
         (case (box g, resolution g) of (((b00, b01), (b10, b11), (b20, b21)), (n0, n1, n2)) \<Rightarrow>
            let lc0 = (\<lambda>(i, j, l). mgrid_axis b00 b01 n0 i);
                lc1 = (\<lambda>(i, j, l). mgrid_axis b10 b11 n1 j);
                lc2 = (\<lambda>(i, j, l). mgrid_axis b20 b21 n2 l)
            in
            if grid_type g = ''cartesian'' then
              let x2y2 = (\<lambda>p. lc0 p ^ 2 + lc1 p ^ 2);
                  local_r_spherical = (\<lambda>p. sqrt (x2y2 p + lc2 p ^ 2));
                  local_r_cylindrical = (\<lambda>p. sqrt (x2y2 p));
                  local_theta = (\<lambda>p. np_arccos (np_divide (lc2 p) (local_r_spherical p)));
                  local_phi = (\<lambda>p. np_arctan2 (lc1 p) (lc0 p))
              in Inr \<lparr>x_array = lc0, y_array = lc1, z_array = lc2,
                      r_spherical_array = local_r_spherical,
                      r_cylindrical_array = local_r_cylindrical,
                      theta_array = local_theta, phi_array = local_phi\<rparr>
            else if grid_type g = ''spherical'' then
              let local_sin_theta = (\<lambda>p. sin (lc1 p));
                  local_cos_theta = (\<lambda>p. cos (lc1 p));
                  local_sin_phi = (\<lambda>p. sin (lc2 p));
                  local_cos_phi = (\<lambda>p. cos (lc2 p));
                  local_x = (\<lambda>p. lc0 p * local_sin_theta p * local_cos_phi p);
                  local_y = (\<lambda>p. lc0 p * local_sin_theta p * local_sin_phi p);
                  local_z = (\<lambda>p. lc0 p * local_cos_theta p);
                  local_r_cylindrical = (\<lambda>p. lc0 p * local_sin_theta p)
              in Inr \<lparr>x_array = local_x, y_array = local_y, z_array = local_z,
                      r_spherical_array = lc0,
                      r_cylindrical_array = local_r_cylindrical,
                      theta_array = (\<lambda>p. Some (lc1 p)), phi_array = lc2\<rparr>
            else if grid_type g = ''cylindrical'' then
              let local_sin_phi = (\<lambda>p. sin (lc1 p));
                  local_cos_phi = (\<lambda>p. cos (lc1 p));
                  local_x = (\<lambda>p. lc0 p * local_cos_phi p);
                  local_y = (\<lambda>p. lc0 p * local_sin_phi p);
                  local_r_spherical = (\<lambda>p. sqrt (lc0 p ^ 2 + lc2 p ^ 2));
                  local_theta = (\<lambda>p. np_arccos (np_divide (lc2 p) (local_r_spherical p)))
              in Inr \<lparr>x_array = local_x, y_array = local_y, z_array = lc2,
                      r_spherical_array = local_r_spherical,
                      r_cylindrical_array = lc0,
                      theta_array = local_theta, phi_array = lc1\<rparr>
            else Inl ValueError))"

text \<open>
  The property \<^verbatim>\<open>coordinates\<close> fills the cache on first use; the grid it returns is the
  object after the access. The named properties read one key of the dictionary.
\<close>

definition coordinates :: "Grid \<Rightarrow> error + coordinates_dict \<times> Grid" where
  "coordinates g =
     (case coordinates_cache g of
        None \<Rightarrow>
          (case generate_coordinates g of
             Inl e \<Rightarrow> Inl e
           | Inr c \<Rightarrow> Inr (c, g\<lparr>coordinates_cache := Some c\<rparr>))
      | Some c \<Rightarrow> Inr (c, g))"

definition Grid_property :: "(coordinates_dict \<Rightarrow> 'a) \<Rightarrow> Grid \<Rightarrow> error + 'a \<times> Grid" where
  "Grid_property key g =
     (case coordinates g of Inl e \<Rightarrow> Inl e | Inr (c, g') \<Rightarrow> Inr (key c, g'))"

definition in_shape :: "Grid \<Rightarrow> index3 \<Rightarrow> bool" where
  "in_shape g p =
     (case (resolution g, p) of ((n0, n1, n2), (i, j, l)) \<Rightarrow>
        int i < n0 \<and> int j < n1 \<and> int l < n2)"

text \<open>
  The grid of the specification's end-to-end scenario: the box \<open>[-1, 1]\<^sup>3\<close> with three
  points per axis, so that the index \<open>(1, 1, 1)\<close> is the origin and \<open>(2, 2, 2)\<close> the
  corner \<open>(1, 1, 1)\<close>.
\<close>

definition centred_grid :: "string \<Rightarrow> Grid" where
  "centred_grid gt =
     \<lparr>box = ((- 1, 1), (- 1, 1), (- 1, 1)), resolution = (3, 3, 3), grid_type = gt,
      coordinates_cache = None\<rparr>"

section \<open>Disk field\<close>

record disk_params =
  D_d :: real
  Ralpha_d :: real
  R_d :: real
  Cn_d :: "real list"
  h_d :: real

definition get_B_disk_cyl_unnormalized ::
  "special \<Rightarrow> 'i ndarray \<Rightarrow> 'i ndarray \<Rightarrow> 'i ndarray \<Rightarrow> real \<Rightarrow> disk_params \<Rightarrow> 'i field" where
  "get_B_disk_cyl_unnormalized S r phi z kn p =
     (let Ralpha = Ralpha_d p;
          D = D_d p;
          Br = (\<lambda>i. Ralpha * j1 S (kn * r i)
                   * (cos (pi * z i / 2)
                      + 3 * cos (3 * pi * z i / 2) / (4 * pi powr 1.5 * sqrt (- D))));
          Bphi = (\<lambda>i. - 2 * j1 S (kn * r i) * sqrt (- D / pi) * cos (pi * z i / 2));
          Bz = (\<lambda>i. - 2 * Ralpha / pi
                   * (j1 S (kn * r i)
                      + 0.5 * kn * r i * (j0 S (kn * r i) - jv S 2 (kn * r i)))
                   * (sin (pi * z i / 2)
                      + sin (3 * pi * z i / 2) / (4 * pi powr 1.5 * sqrt (- D))))
      in (Br, Bphi, Bz))"

text \<open>
  \<^verbatim>\<open>__intregrand_compute_normalization\<close> is called by the integrator with scalars: a
  scalar is an array with the one index \<open>()\<close>. The last line is the source's
  \<^verbatim>\<open>r * Br*Br + Bphi*Bphi + Bz*Bz\<close>, with Python's precedence.
\<close>

definition intregrand_compute_normalization ::
  "special \<Rightarrow> real \<Rightarrow> real \<Rightarrow> real \<Rightarrow> real \<Rightarrow> disk_params \<Rightarrow> real" where
  "intregrand_compute_normalization S r phi z kn p =
     (case get_B_disk_cyl_unnormalized S (\<lambda>u::unit. r) (\<lambda>u. phi) (\<lambda>u. z) kn p of
        (Br, Bphi, Bz) \<Rightarrow> r * Br () * Br () + Bphi () * Bphi () + Bz () * Bz ())"

text \<open>
  \<^verbatim>\<open>scipy.integrate.nquad\<close> is a parameter: it receives the integrand and the list of
  ranges and returns the pair (value, error estimate).
\<close>

type_synonym nquad = "(real \<Rightarrow> real \<Rightarrow> real \<Rightarrow> real) \<Rightarrow> (real \<times> real) list \<Rightarrow> real \<times> real"

text \<open>
  \<^verbatim>\<open>tmp[0]**(-0.5)\<close> on a Python float: zero raises \<^verbatim>\<open>ZeroDivisionError\<close>; a negative base
  gives a complex number, which no real-valued array of this model can hold, so the
  model stops there with \<open>ComplexValue\<close>.
\<close>

definition pow_minus_half :: "real \<Rightarrow> error + real" where
  "pow_minus_half v =
     (if v = 0 then Inl ZeroDivisionError
      else if v < 0 then Inl ComplexValue
      else Inr (v powr (- 0.5)))"

definition compute_normalization :: "nquad \<Rightarrow> special \<Rightarrow> real \<Rightarrow> disk_params \<Rightarrow> error + real" where
  "compute_normalization nq S kn p =
     (let r_range = (0, 1);
          phi_range = (0, 2 * pi);
          z_range = (- 1, 1);
          tmp = nq (\<lambda>r phi z. intregrand_compute_normalization S r phi z kn p)
                   [r_range, phi_range, z_range]
      in pow_minus_half (fst tmp))"

text \<open>
  The module-level dictionary \<^verbatim>\<open>B_norm\<close> is the state of the module. \<open>nquad_calls\<close> is
  a ghost counter, absent from the source: it counts the calls of
  \<^verbatim>\<open>compute_normalization\<close>, each of which calls the integrator once. The state is
  returned also when the call raises, as the dictionary outlives the exception.
\<close>

record disk_state =
  B_norm :: "real \<rightharpoonup> real"
  nquad_calls :: nat

definition get_B_disk_cyl_component ::
  "nquad \<Rightarrow> special \<Rightarrow> 'i ndarray \<Rightarrow> 'i ndarray \<Rightarrow> 'i ndarray \<Rightarrow> real \<Rightarrow> disk_params
     \<Rightarrow> disk_state \<Rightarrow> (error + 'i field) \<times> disk_state" where
  "get_B_disk_cyl_component nq S r phi z kn p s =
     (let filled =
            (if B_norm s kn = None then
               (case compute_normalization nq S kn p of
                  Inl e \<Rightarrow> Inl (e, s\<lparr>nquad_calls := Suc (nquad_calls s)\<rparr>)
                | Inr v \<Rightarrow> Inr (s\<lparr>B_norm := (B_norm s)(kn \<mapsto> v),
                                  nquad_calls := Suc (nquad_calls s)\<rparr>))
             else Inr s)
      in case filled of
           Inl (e, s') \<Rightarrow> (Inl e, s')
         | Inr s' \<Rightarrow>
             (case get_B_disk_cyl_unnormalized S r phi z kn p of (Br, Bphi, Bz) \<Rightarrow>
                (case B_norm s' kn of
                   None \<Rightarrow> (Inl KeyError, s')
                 | Some n \<Rightarrow> (Inr ((\<lambda>i. n * Br i), (\<lambda>i. n * Bphi i), (\<lambda>i. n * Bz i)), s'))))"

text \<open>
  The loop of \<^verbatim>\<open>get_B_disk_cyl\<close> over \<^verbatim>\<open>enumerate(zip(kns, Cns))\<close>. The accumulators
  \<^verbatim>\<open>Br, Bphi, Bz\<close> are unbound before the first iteration (\<open>None\<close>) and set to zero when
  \<open>i = 0\<close>.
\<close>

fun disk_loop ::
  "nquad \<Rightarrow> special \<Rightarrow> 'i ndarray \<Rightarrow> 'i ndarray \<Rightarrow> 'i ndarray \<Rightarrow> disk_params \<Rightarrow> nat
     \<Rightarrow> (real \<times> real) list \<Rightarrow> 'i field option \<Rightarrow> disk_state
     \<Rightarrow> (error + 'i field option) \<times> disk_state" where
  "disk_loop nq S r phi z p i [] acc s = (Inr acc, s)"
| "disk_loop nq S r phi z p i ((kn, Cn) # rest) acc s =
     (let acc0 = (if i = 0 then Some ((\<lambda>j. 0), (\<lambda>j. 0), (\<lambda>j. 0)) else acc) in
      case get_B_disk_cyl_component nq S r phi z kn p s of
        (Inl e, s') \<Rightarrow> (Inl e, s')
      | (Inr (Br_tmp, Bphi_tmp, Bz_tmp), s') \<Rightarrow>
          (case acc0 of
             None \<Rightarrow> (Inl UnboundLocalError, s')
           | Some (Br, Bphi, Bz) \<Rightarrow>
               disk_loop nq S r phi z p (Suc i) rest
                 (Some ((\<lambda>j. Br j + Cn * Br_tmp j),
                        (\<lambda>j. Bphi j + Cn * Bphi_tmp j),
                        (\<lambda>j. Bz j + Cn * Bz_tmp j))) s'))"

text \<open>\<^verbatim>\<open>B[mask] = v\<close> with a boolean mask of the array's shape.\<close>

definition setitem_mask :: "'i ndarray \<Rightarrow> ('i \<Rightarrow> bool) \<Rightarrow> real \<Rightarrow> 'i ndarray" where
  "setitem_mask B m v = (\<lambda>i. if m i then v else B i)"

definition get_B_disk_cyl ::
  "nquad \<Rightarrow> special \<Rightarrow> 'i ndarray \<Rightarrow> 'i ndarray \<Rightarrow> 'i ndarray \<Rightarrow> disk_params
     \<Rightarrow> disk_state \<Rightarrow> (error + 'i field) \<times> disk_state" where
  "get_B_disk_cyl nq S r phi z p s =
     (let Cns = Cn_d p;
          number_of_bessel = length Cns
      in case jn_zeros S 1 number_of_bessel of
           Inl e \<Rightarrow> (Inl e, s)
         | Inr mu_n \<Rightarrow>
             (let kns = mu_n in
              case disk_loop nq S r phi z p 0 (zip kns Cns) None s of
                (Inl e, s') \<Rightarrow> (Inl e, s')
              | (Inr None, s') \<Rightarrow> (Inl UnboundLocalError, s')
              | (Inr (Some (Br, Bphi, Bz)), s') \<Rightarrow>
                  (Inr (setitem_mask Br (\<lambda>i. \<bar>z i\<bar> > 1) 0,
                        setitem_mask Bphi (\<lambda>i. \<bar>z i\<bar> > 1) 0,
                        setitem_mask Bz (\<lambda>i. \<bar>z i\<bar> > 1) 0), s')))"

section \<open>An interpretation of the library functions\<close>

text \<open>
  To run the model on concrete inputs the parameters need values. \<open>series_special\<close>
  reads \<^verbatim>\<open>j0\<close>, \<^verbatim>\<open>j1\<close> and \<^verbatim>\<open>jv\<close> of a natural order as the power series of the Bessel
  function of the first kind, \<^verbatim>\<open>jv\<close> of an order \<open>n + 1/2\<close> through the spherical Bessel
  recurrence (the repository passes no other order), and \<^verbatim>\<open>jn_zeros\<close> from a table of
  the first three zeros of \<open>J\<^sub>1\<close> to ten decimals. \<open>midpoint_nquad\<close> is the midpoint
  rule on a single cell. The theorems below hold for every interpretation; these two
  only serve to evaluate them.
\<close>

definition bessel_J :: "nat \<Rightarrow> real \<Rightarrow> real" where
  "bessel_J n x = (\<Sum>m. (- 1) ^ m / (fact m * fact (m + n)) * (x / 2) ^ (2 * m + n))"

definition J1_term :: "real \<Rightarrow> nat \<Rightarrow> real" where
  "J1_term x m = (x / 2) ^ (2 * m + 1) / (fact m * fact (m + 1))"

fun spherical_j :: "nat \<Rightarrow> real \<Rightarrow> real" where
  "spherical_j 0 x = sin x / x"
| "spherical_j (Suc 0) x = sin x / x ^ 2 - cos x / x"
| "spherical_j (Suc (Suc n)) x =
     real (2 * n + 3) / x * spherical_j (Suc n) x - spherical_j n x"

definition J1_zero_table :: "real list" where
  "J1_zero_table = [3.8317059702, 7.0155866698, 10.1734681351]"

definition series_special :: special where
  "series_special =
     \<lparr>j0 = bessel_J 0,
      j1 = bessel_J 1,
      jv = (\<lambda>v x. if v = real (nat \<lfloor>v\<rfloor>) then bessel_J (nat \<lfloor>v\<rfloor>) x
                  else if v = real (nat \<lfloor>v\<rfloor>) + 1 / 2
                  then sqrt (2 * x / pi) * spherical_j (nat \<lfloor>v\<rfloor>) x
                  else 0),
      jn_zeros = (\<lambda>n nt. if nt = 0 \<or> 3 < nt then Inl ValueError
                         else Inr (take nt J1_zero_table))\<rparr>"

definition midpoint_nquad :: nquad where
  "midpoint_nquad f ranges =
     (case ranges of
        [(a0, b0), (a1, b1), (a2, b2)] \<Rightarrow>
          ((b0 - a0) * (b1 - a1) * (b2 - a2)
             * f ((a0 + b0) / 2) ((a1 + b1) / 2) ((a2 + b2) / 2), 0)
      | _ \<Rightarrow> (0, 0))"

definition empty_state :: disk_state where
  "empty_state = \<lparr>B_norm = Map.empty, nquad_calls = 0\<rparr>"

text \<open>The parameter set of the specification's end-to-end scenario for the disk.\<close>

definition unit_params :: disk_params where
  "unit_params = \<lparr>D_d = - 1, Ralpha_d = 1, R_d = 1, Cn_d = [1], h_d = 1\<rparr>"

section \<open>The Bessel series is positive near the origin\<close>

lemma J1_term_nonneg: "0 \<le> x \<Longrightarrow> 0 \<le> J1_term x m"
  by (simp add: J1_term_def)

lemma J1_term_Suc: "J1_term x (Suc m) = J1_term x m * ((x / 2) ^ 2 / (real (Suc m) * real (Suc (Suc m))))"
  by (simp add: J1_term_def power2_eq_square field_simps)

lemma J1_term_mono:
  assumes "0 \<le> x" "x \<le> 2"
  shows "J1_term x (Suc m) \<le> J1_term x m"
proof -
  have sq: "(x / 2) ^ 2 \<le> 1"
    using assms by (simp add: power_le_one)
  have "(x / 2) ^ 2 / (real (Suc m) * real (Suc (Suc m))) \<le> 1"
  proof -
    have "1 \<le> real (Suc m) * real (Suc (Suc m))"
      by (simp add: algebra_simps)
    with sq show ?thesis
      by (metis (no_types, opaque_lifting) divide_le_eq_1_pos less_le_trans order_trans zero_less_one)
  qed
  then have "J1_term x m * ((x / 2) ^ 2 / (real (Suc m) * real (Suc (Suc m)))) \<le> J1_term x m * 1"
    by (intro mult_left_mono J1_term_nonneg assms)
  then show ?thesis
    by (simp add: J1_term_Suc)
qed

lemma J1_term_le:
  assumes "0 \<le> x" "x \<le> 2"
  shows "J1_term x m \<le> inverse (real (Suc m))"
proof -
  have p: "(x / 2) ^ (2 * m + 1) \<le> 1"
    by (intro power_le_one) (use assms in auto)
  have f: "real (Suc m) \<le> fact m * fact (m + 1)"
  proof -
    have "real (Suc m) \<le> fact (Suc m)"
      by (metis fact_ge_self of_nat_fact of_nat_le_iff)
    also have "\<dots> = 1 * fact (m + 1)" by simp
    also have "\<dots> \<le> fact m * fact (m + 1)"
      by (intro mult_right_mono) (simp_all add: fact_ge_1)
    finally show ?thesis .
  qed
  have "J1_term x m \<le> 1 / (fact m * fact (m + 1))"
    unfolding J1_term_def using p by (intro divide_right_mono) simp_all
  also have "\<dots> \<le> 1 / real (Suc m)"
    using f by (intro divide_left_mono) simp_all
  finally show ?thesis by (simp add: inverse_eq_divide)
qed

lemma J1_term_tendsto:
  assumes "0 \<le> x" "x \<le> 2"
  shows "J1_term x \<longlonglongrightarrow> 0"
proof (rule tendsto_sandwich)
  show "\<forall>\<^sub>F m in sequentially. 0 \<le> J1_term x m"
    by (intro always_eventually allI J1_term_nonneg assms)
  show "\<forall>\<^sub>F m in sequentially. J1_term x m \<le> inverse (real (Suc m))"
    by (intro always_eventually allI J1_term_le assms)
  show "(\<lambda>m. 0::real) \<longlonglongrightarrow> 0" by simp
  show "(\<lambda>m. inverse (real (Suc m))) \<longlonglongrightarrow> 0"
    by (rule LIMSEQ_inverse_real_of_nat)
qed

lemma bessel_J1_series: "bessel_J 1 x = (\<Sum>m. (- 1) ^ m * J1_term x m)"
  unfolding bessel_J_def J1_term_def
  by (intro arg_cong [where f = suminf] ext) simp

lemma bessel_J1_lower:
  assumes "0 \<le> x" "x \<le> 2"
  shows "x / 2 - (x / 2) ^ 3 / 2 \<le> bessel_J 1 x"
proof -
  have "(\<Sum>i<2 * 1. (- 1) ^ i * J1_term x i) \<le> (\<Sum>i. (- 1) ^ i * J1_term x i)"
    using summable_Leibniz'(2) [of "J1_term x" 1, OF J1_term_tendsto J1_term_nonneg J1_term_mono]
      assms by blast
  moreover have "(\<Sum>i<2 * 1. (- 1) ^ i * J1_term x i) = x / 2 - (x / 2) ^ 3 / 2"
    by (simp add: J1_term_def numeral_2_eq_2 power3_eq_cube)
  ultimately show ?thesis
    by (simp only: bessel_J1_series)
qed

lemma bessel_J1_pos:
  assumes "0 < x" "x \<le> 2"
  shows "0 < bessel_J 1 x"
proof -
  have "(x / 2) ^ 3 / 2 < x / 2"
  proof -
    have "(x / 2) ^ 2 \<le> 1" using assms by (simp add: power_le_one)
    then have "(x / 2) * (x / 2) ^ 2 \<le> (x / 2) * 1"
      using assms by (intro mult_left_mono) auto
    then have "(x / 2) ^ 3 \<le> x / 2" by (simp add: power3_eq_cube power2_eq_square)
    then show ?thesis using assms by linarith
  qed
  with bessel_J1_lower [of x] assms show ?thesis by linarith
qed

section \<open>Halo modes: dispatch and components\<close>

lemma py_getitem_4:
  "py_getitem [a, b, c, d] i =
     (if i = 0 \<or> i = - 4 then Inr a
      else if i = 1 \<or> i = - 3 then Inr b
      else if i = 2 \<or> i = - 2 then Inr c
      else if i = 3 \<or> i = - 1 then Inr d
      else Inl IndexError)"
proof -
  consider "i \<le> - 5" | "i = - 4" | "i = - 3" | "i = - 2" | "i = - 1"
    | "i = 0" | "i = 1" | "i = 2" | "i = 3" | "4 \<le> i"
    by linarith
  then show ?thesis
    by cases (auto simp: py_getitem_def)
qed

text \<open>
  Claim C7. \<^verbatim>\<open>get_mode\<close> with a mode index above four, \<open>n_mode = 5\<close> among them, raises
  \<^verbatim>\<open>NotImplementedError\<close> for either value of \<open>symmetric\<close> and returns no field.
\<close>

theorem get_mode_above_four:
  "4 < n_mode \<Longrightarrow> get_mode S r theta phi n_mode symmetric = Inl NotImplementedError"
  by (simp add: get_mode_def)

theorem get_mode_above_four_witness:
  "(4::int) < 5 \<and>
   get_mode series_special (\<lambda>i::nat. 1 / 2) (\<lambda>i. pi / 2) (\<lambda>i. 0) 5 True
     = Inl NotImplementedError"
  using get_mode_above_four [of 5 series_special "\<lambda>i::nat. 1 / 2" "\<lambda>i. pi / 2" "\<lambda>i. 0" True]
  by simp

text \<open>
  Claim C10. Only the upper bound of the mode index is checked: for \<open>n_mode \<le> 0\<close> the
  call never raises \<^verbatim>\<open>NotImplementedError\<close>. The index \<open>n_mode - 1\<close> is then negative and
  Python counts it from the end of the table: \<open>n_mode = 0\<close> is the fourth mode of the
  requested symmetry class, \<open>- 1\<close> the third, \<open>- 2\<close> the second and \<open>- 3\<close> the first. Below
  that the table lookup itself fails with \<^verbatim>\<open>IndexError\<close>.
\<close>

theorem get_mode_nonpositive:
  "n_mode \<le> 0 \<Longrightarrow>
     get_mode S r theta phi n_mode symmetric \<noteq> Inl NotImplementedError
     \<and> get_mode S r theta phi n_mode symmetric =
         (if n_mode \<le> - 4 then Inl IndexError
          else if symmetric then
            Inr ((if n_mode = 0 then get_B_s_4 S r theta phi s_4_C s_4_k
                  else if n_mode = - 1 then get_B_s_3 S r theta phi s_3_C s_3_k
                  else if n_mode = - 2 then get_B_s_2 S r theta phi s_2_C s_2_k
                  else get_B_s_1 S r theta phi s_1_C s_1_k))
          else
            Inr ((if n_mode = 0 then get_B_a_4 S r theta phi a_4_C a_4_k
                  else if n_mode = - 1 then get_B_a_3 S r theta phi a_3_C a_3_k
                  else if n_mode = - 2 then get_B_a_2 S r theta phi a_2_C a_2_k
                  else get_B_a_1 S r theta phi a_1_C a_1_k)))"
proof -
  assume n: "n_mode \<le> 0"
  then consider "n_mode \<le> - 4" | "n_mode = - 3" | "n_mode = - 2" | "n_mode = - 1" | "n_mode = 0"
    by linarith
  then show ?thesis
    by cases
      (auto simp: get_mode_def symmetric_modes_list_def antisymmetric_modes_list_def py_getitem_4)
qed

theorem get_mode_nonpositive_witness:
  "(- 3::int) \<le> 0 \<and>
   get_mode series_special (\<lambda>i::nat. 1 / 2) (\<lambda>i. pi / 2) (\<lambda>i. 0) (- 3) True
     = Inr (get_B_s_1 series_special (\<lambda>i::nat. 1 / 2) (\<lambda>i. pi / 2) (\<lambda>i. 0) s_1_C s_1_k) \<and>
   (0::int) \<le> 0 \<and>
   get_mode series_special (\<lambda>i::nat. 1 / 2) (\<lambda>i. pi / 2) (\<lambda>i. 0) 0 False
     = Inr (get_B_a_4 series_special (\<lambda>i::nat. 1 / 2) (\<lambda>i. pi / 2) (\<lambda>i. 0) a_4_C a_4_k)"
  using get_mode_nonpositive [of "- 3" series_special "\<lambda>i::nat. 1 / 2" "\<lambda>i. pi / 2" "\<lambda>i. 0" True]
    get_mode_nonpositive [of 0 series_special "\<lambda>i::nat. 1 / 2" "\<lambda>i. pi / 2" "\<lambda>i. 0" False]
  by simp

text \<open>
  Claim C5. For every input and all constants, the modes \<open>s_2\<close>, \<open>s_4\<close> and \<open>a_3\<close>
  return a radial and a polar component that are zero everywhere, and the modes \<open>s_1\<close>,
  \<open>s_3\<close>, \<open>a_1\<close>, \<open>a_2\<close> and \<open>a_4\<close> return an azimuthal component that is zero
  everywhere; so no mode has a non-zero azimuthal component together with a non-zero
  radial or polar one.
\<close>

theorem halo_modes_purely_toroidal_or_poloidal:
  "fst (get_B_s_2 S r theta phi C k) = (\<lambda>i. 0) \<and> fst (snd (get_B_s_2 S r theta phi C k)) = (\<lambda>i. 0) \<and>
   fst (get_B_s_4 S r theta phi C k) = (\<lambda>i. 0) \<and> fst (snd (get_B_s_4 S r theta phi C k)) = (\<lambda>i. 0) \<and>
   fst (get_B_a_3 S r theta phi C k) = (\<lambda>i. 0) \<and> fst (snd (get_B_a_3 S r theta phi C k)) = (\<lambda>i. 0) \<and>
   snd (snd (get_B_s_1 S r theta phi C k)) = (\<lambda>i. 0) \<and>
   snd (snd (get_B_s_3 S r theta phi C k)) = (\<lambda>i. 0) \<and>
   snd (snd (get_B_a_1 S r theta phi C k)) = (\<lambda>i. 0) \<and>
   snd (snd (get_B_a_2 S r theta phi C k)) = (\<lambda>i. 0) \<and>
   snd (snd (get_B_a_4 S r theta phi C k)) = (\<lambda>i. 0)"
  by (simp add: get_B_s_1_def get_B_s_2_def get_B_s_3_def get_B_s_4_def
      get_B_a_1_def get_B_a_2_def get_B_a_3_def get_B_a_4_def zeros_like_def Let_def)

section \<open>Grid: construction and coordinate identities\<close>

lemma quotient_in_arccos_domain:
  assumes "0 \<le> a" "sqrt (a + z ^ 2) \<noteq> 0"
  shows "- 1 \<le> z / sqrt (a + z ^ 2)" "z / sqrt (a + z ^ 2) \<le> 1"
proof -
  define s where "s = sqrt (a + z ^ 2)"
  have "sqrt (z ^ 2) \<le> s"
    unfolding s_def using assms(1) by (intro real_sqrt_le_mono) simp
  then have az: "\<bar>z\<bar> \<le> s" by simp
  have "0 \<le> s" unfolding s_def using assms(1) by simp
  with assms(2) have s: "0 < s" by (simp add: s_def)
  from az s have "\<bar>z / s\<bar> \<le> 1" by (simp add: field_simps)
  then have "- 1 \<le> z / s" "z / s \<le> 1" by linarith+
  then show "- 1 \<le> z / sqrt (a + z ^ 2)" "z / sqrt (a + z ^ 2) \<le> 1"
    by (simp_all only: s_def)
qed

lemma square_rotation: "(A * cos w) ^ 2 + (A * sin w) ^ 2 = (A::real) ^ 2"
proof -
  have "(A * cos w) ^ 2 + (A * sin w) ^ 2 = A ^ 2 * (cos w) ^ 2 + A ^ 2 * (sin w) ^ 2"
    by (simp only: power_mult_distrib)
  also have "\<dots> = A ^ 2 * ((cos w) ^ 2 + (sin w) ^ 2)"
    by (simp only: distrib_left)
  also have "\<dots> = A ^ 2" by simp
  finally show ?thesis .
qed

lemma theta_from_quotient:
  assumes "0 \<le> a" "sqrt (a + z ^ 2) \<noteq> 0"
  shows "\<exists>t. np_arccos (np_divide z (sqrt (a + z ^ 2))) = Some t \<and> z = sqrt (a + z ^ 2) * cos t"
proof -
  note d = quotient_in_arccos_domain [OF assms]
  have "np_arccos (np_divide z (sqrt (a + z ^ 2))) = Some (arccos (z / sqrt (a + z ^ 2)))"
    using assms(2) d by (simp add: np_arccos_def np_divide_def)
  moreover have "z = sqrt (a + z ^ 2) * cos (arccos (z / sqrt (a + z ^ 2)))"
    using assms(2) d by (simp add: cos_arccos)
  ultimately show ?thesis by blast
qed

lemma theta_nan_at_zero: "np_arccos (np_divide z 0) = None"
  by (simp add: np_arccos_def np_divide_def)

lemma get_prototype_positive:
  assumes "resolution g = (n0, n1, n2)" "0 < n0" "0 < n1" "0 < n2"
  shows "get_prototype g = Inr (nat n0, nat n1, nat n2)"
  using assms by (simp add: get_prototype_def)

text \<open>
  Claim C6. On a grid of one of the three types with a strictly positive resolution
  the coordinates are generated, and at every grid point \<open>x\<^sup>2 + y\<^sup>2 = r_cylindrical\<^sup>2\<close> and
  \<open>x\<^sup>2 + y\<^sup>2 + z\<^sup>2 = r_spherical\<^sup>2\<close>. The third identity,
  \<open>z = r_spherical * cos theta\<close>, holds at every point of a spherical grid and at every
  point of a cartesian or cylindrical grid where \<open>r_spherical \<noteq> 0\<close>; at a point of those
  two grids with \<open>r_spherical = 0\<close> the polar angle is \<^verbatim>\<open>arccos(0/0)\<close>, not a number, and
  the identity has no meaning there. Equality is over the reals.
\<close>

theorem grid_coordinate_identities:
  assumes "grid_type g = ''cartesian'' \<or> grid_type g = ''spherical'' \<or> grid_type g = ''cylindrical''"
    and "resolution g = (n0, n1, n2)" and "0 < n0" and "0 < n1" and "0 < n2"
  shows "\<exists>c. generate_coordinates g = Inr c \<and>
    (\<forall>p. in_shape g p \<longrightarrow>
       x_array c p ^ 2 + y_array c p ^ 2 = r_cylindrical_array c p ^ 2 \<and>
       x_array c p ^ 2 + y_array c p ^ 2 + z_array c p ^ 2 = r_spherical_array c p ^ 2 \<and>
       (if grid_type g = ''spherical'' \<or> r_spherical_array c p \<noteq> 0
        then \<exists>t. theta_array c p = Some t \<and> z_array c p = r_spherical_array c p * cos t
        else theta_array c p = None))"
proof -
  obtain b00 b01 b10 b11 b20 b21 where b: "box g = ((b00, b01), (b10, b11), (b20, b21))"
    by (metis prod.exhaust)
  note proto = get_prototype_positive [OF assms(2-5)]
  have trig: "(u * sin v * cos w) ^ 2 + (u * sin v * sin w) ^ 2 = (u * sin v) ^ 2"
    "(u * sin v * cos w) ^ 2 + (u * sin v * sin w) ^ 2 + (u * cos v) ^ 2 = u ^ 2"
    "(u * cos w) ^ 2 + (u * sin w) ^ 2 = u ^ 2"
    "(u * sin w) ^ 2 + (u * cos w) ^ 2 = u ^ 2" for u v w :: real
    using square_rotation [of "u * sin v" w] square_rotation [of u v] square_rotation [of u w]
    by (simp_all add: add.commute)
  from assms(1) consider (cart) "grid_type g = ''cartesian''"
    | (sph) "grid_type g = ''spherical''" | (cyl) "grid_type g = ''cylindrical''"
    by blast
  then show ?thesis
  proof cases
    case cart
    show ?thesis
      using theta_from_quotient theta_nan_at_zero
      by (auto simp: generate_coordinates_def proto b assms(2) cart Let_def split: prod.splits)
  next
    case sph
    show ?thesis
      by (auto simp: generate_coordinates_def proto b assms(2) sph Let_def trig split: prod.splits)
  next
    case cyl
    show ?thesis
      using theta_from_quotient theta_nan_at_zero
      by (auto simp: generate_coordinates_def proto b assms(2) cyl Let_def trig split: prod.splits)
  qed
qed


lemma centred_cartesian_ex:
  "\<exists>c. generate_coordinates (centred_grid ''cartesian'') = Inr c \<and>
     (\<forall>i j l. z_array c (i, j, l) = mgrid_axis (- 1) 1 3 l \<and>
        r_spherical_array c (i, j, l)
          = sqrt ((mgrid_axis (- 1) 1 3 i) ^ 2 + (mgrid_axis (- 1) 1 3 j) ^ 2
                  + (mgrid_axis (- 1) 1 3 l) ^ 2) \<and>
        theta_array c (i, j, l)
          = np_arccos (np_divide (mgrid_axis (- 1) 1 3 l)
              (sqrt ((mgrid_axis (- 1) 1 3 i) ^ 2 + (mgrid_axis (- 1) 1 3 j) ^ 2
                     + (mgrid_axis (- 1) 1 3 l) ^ 2))))"
  by (simp add: generate_coordinates_def centred_grid_def get_prototype_def Let_def)

lemma mgrid_axis_centred:
  "mgrid_axis (- 1) 1 3 1 = 0" "mgrid_axis (- 1) 1 3 2 = 1"
  by (simp_all add: mgrid_axis_def)

theorem grid_coordinate_identities_witness:
  "grid_type (centred_grid ''cartesian'') = ''cartesian'' \<and>
   resolution (centred_grid ''cartesian'') = (3, 3, 3) \<and> (0::int) < 3 \<and>
   in_shape (centred_grid ''cartesian'') (2, 2, 2) \<and>
   (\<exists>c. generate_coordinates (centred_grid ''cartesian'') = Inr c \<and>
      x_array c (2, 2, 2) ^ 2 + y_array c (2, 2, 2) ^ 2 = r_cylindrical_array c (2, 2, 2) ^ 2 \<and>
      x_array c (2, 2, 2) ^ 2 + y_array c (2, 2, 2) ^ 2 + z_array c (2, 2, 2) ^ 2
        = r_spherical_array c (2, 2, 2) ^ 2 \<and>
      (\<exists>t. theta_array c (2, 2, 2) = Some t \<and>
           z_array c (2, 2, 2) = r_spherical_array c (2, 2, 2) * cos t))"
proof -
  have g: "grid_type (centred_grid ''cartesian'') = ''cartesian''"
    and r: "resolution (centred_grid ''cartesian'') = (3, 3, 3)"
    and s: "in_shape (centred_grid ''cartesian'') (2, 2, 2)"
    by (simp_all add: centred_grid_def in_shape_def)
  from grid_coordinate_identities [of "centred_grid ''cartesian''" 3 3 3] g r
  obtain c where c: "generate_coordinates (centred_grid ''cartesian'') = Inr c"
    and i: "\<forall>p. in_shape (centred_grid ''cartesian'') p \<longrightarrow>
       x_array c p ^ 2 + y_array c p ^ 2 = r_cylindrical_array c p ^ 2 \<and>
       x_array c p ^ 2 + y_array c p ^ 2 + z_array c p ^ 2 = r_spherical_array c p ^ 2 \<and>
       (if grid_type (centred_grid ''cartesian'') = ''spherical'' \<or> r_spherical_array c p \<noteq> 0
        then \<exists>t. theta_array c p = Some t \<and> z_array c p = r_spherical_array c p * cos t
        else theta_array c p = None)"
    by auto
  have nz: "r_spherical_array c (2, 2, 2) \<noteq> 0"
    using c centred_cartesian_ex by (auto simp: mgrid_axis_centred)
  from i s have "x_array c (2, 2, 2) ^ 2 + y_array c (2, 2, 2) ^ 2 = r_cylindrical_array c (2, 2, 2) ^ 2 \<and>
       x_array c (2, 2, 2) ^ 2 + y_array c (2, 2, 2) ^ 2 + z_array c (2, 2, 2) ^ 2
         = r_spherical_array c (2, 2, 2) ^ 2 \<and>
       (if grid_type (centred_grid ''cartesian'') = ''spherical'' \<or> r_spherical_array c (2, 2, 2) \<noteq> 0
        then \<exists>t. theta_array c (2, 2, 2) = Some t
               \<and> z_array c (2, 2, 2) = r_spherical_array c (2, 2, 2) * cos t
        else theta_array c (2, 2, 2) = None)"
    by blast
  with nz have "x_array c (2, 2, 2) ^ 2 + y_array c (2, 2, 2) ^ 2 = r_cylindrical_array c (2, 2, 2) ^ 2 \<and>
       x_array c (2, 2, 2) ^ 2 + y_array c (2, 2, 2) ^ 2 + z_array c (2, 2, 2) ^ 2
         = r_spherical_array c (2, 2, 2) ^ 2 \<and>
       (\<exists>t. theta_array c (2, 2, 2) = Some t
               \<and> z_array c (2, 2, 2) = r_spherical_array c (2, 2, 2) * cos t)"
    by simp
  with c have "\<exists>c. generate_coordinates (centred_grid ''cartesian'') = Inr c \<and>
      x_array c (2, 2, 2) ^ 2 + y_array c (2, 2, 2) ^ 2 = r_cylindrical_array c (2, 2, 2) ^ 2 \<and>
      x_array c (2, 2, 2) ^ 2 + y_array c (2, 2, 2) ^ 2 + z_array c (2, 2, 2) ^ 2
        = r_spherical_array c (2, 2, 2) ^ 2 \<and>
      (\<exists>t. theta_array c (2, 2, 2) = Some t \<and>
           z_array c (2, 2, 2) = r_spherical_array c (2, 2, 2) * cos t)"
    by blast
  with g r s show ?thesis by simp
qed

text \<open>
  Claim C6 as stated (the three identities at every grid point of every valid grid)
  fails at the centre of the specification's own 3x3x3 cartesian scenario: the index
  \<open>(1, 1, 1)\<close> is the origin, where \<open>z = 0\<close>, \<open>r_spherical = 0\<close> and \<open>theta\<close> is not a
  number.
\<close>

theorem grid_origin_theta_counterexample:
  "in_shape (centred_grid ''cartesian'') (1, 1, 1) \<and>
   map_sum id (\<lambda>c. (z_array c (1, 1, 1), r_spherical_array c (1, 1, 1), theta_array c (1, 1, 1)))
     (generate_coordinates (centred_grid ''cartesian'')) = Inr (0, 0, None)"
proof -
  obtain c where c: "generate_coordinates (centred_grid ''cartesian'') = Inr c"
    and v: "z_array c (1, 1, 1) = mgrid_axis (- 1) 1 3 1"
      "r_spherical_array c (1, 1, 1)
          = sqrt ((mgrid_axis (- 1) 1 3 1) ^ 2 + (mgrid_axis (- 1) 1 3 1) ^ 2
                  + (mgrid_axis (- 1) 1 3 1) ^ 2)"
      "theta_array c (1, 1, 1)
          = np_arccos (np_divide (mgrid_axis (- 1) 1 3 1)
              (sqrt ((mgrid_axis (- 1) 1 3 1) ^ 2 + (mgrid_axis (- 1) 1 3 1) ^ 2
                     + (mgrid_axis (- 1) 1 3 1) ^ 2)))"
    using centred_cartesian_ex by blast
  have "in_shape (centred_grid ''cartesian'') (1, 1, 1)"
    by (simp add: in_shape_def centred_grid_def)
  moreover have "z_array c (1, 1, 1) = 0" "r_spherical_array c (1, 1, 1) = 0"
    "theta_array c (1, 1, 1) = None"
    unfolding v mgrid_axis_centred by (simp_all add: theta_nan_at_zero)
  ultimately show ?thesis
    unfolding c by simp
qed

text \<open>
  Claim C3 as stated (the constructor fails for a grid type outside the three names)
  does not hold: the constructor returns the grid.
\<close>

theorem grid_init_accepts_any_type_counterexample:
  "Grid_init ((- 1, 1), (- 1, 1), (- 1, 1)) (3, 3, 3) ''toroidal'' = Inr (centred_grid ''toroidal'')"
  by (simp add: Grid_init_def centred_grid_def fits_int64_def)

text \<open>
  Claim C3, amended. For a grid type outside \<open>{cartesian, spherical, cylindrical}\<close> the
  constructor does not fail on account of the type. When every entry of the resolution
  fits a 64-bit integer it returns the grid and leaves the cache empty, and
  \<^verbatim>\<open>ValueError\<close> is raised by \<^verbatim>\<open>_generate_coordinates\<close>, hence by the first access to
  \<^verbatim>\<open>coordinates\<close> or to any coordinate property. When an entry does not fit, the
  constructor raises \<^verbatim>\<open>OverflowError\<close>, as it does for a valid grid type.
\<close>

theorem invalid_grid_type_fails_on_access:
  assumes "gt \<noteq> ''cartesian''" and "gt \<noteq> ''spherical''" and "gt \<noteq> ''cylindrical''"
  shows "if fits_int64 n0 \<and> fits_int64 n1 \<and> fits_int64 n2
         then \<exists>g. Grid_init b (n0, n1, n2) gt = Inr g \<and> coordinates_cache g = None \<and>
                generate_coordinates g = Inl ValueError \<and>
                coordinates g = Inl ValueError \<and>
                Grid_property key g = Inl ValueError
         else Grid_init b (n0, n1, n2) gt = Inl OverflowError \<and>
              Grid_init b (n0, n1, n2) ''cartesian'' = Inl OverflowError"
proof (cases "fits_int64 n0 \<and> fits_int64 n1 \<and> fits_int64 n2")
  case True
  let ?g = "\<lparr>box = b, resolution = (n0, n1, n2), grid_type = gt, coordinates_cache = None\<rparr>"
  have gen: "generate_coordinates ?g = Inl ValueError"
    using assms
    by (simp add: generate_coordinates_def get_prototype_def Let_def split: prod.splits sum.splits)
  then have co: "coordinates ?g = Inl ValueError"
    by (simp add: coordinates_def)
  then have "Grid_property key ?g = Inl ValueError"
    by (simp add: Grid_property_def)
  with gen co True show ?thesis
    by (simp add: Grid_init_def)
next
  case False
  then have "Grid_init b (n0, n1, n2) gt = Inl OverflowError"
    and "Grid_init b (n0, n1, n2) ''cartesian'' = Inl OverflowError"
    by (auto simp: Grid_init_def)
  with False show ?thesis
    by (simp only: if_False simp_thms)
qed

theorem invalid_grid_type_fails_on_access_witness:
  "''toroidal'' \<noteq> ''cartesian'' \<and> ''toroidal'' \<noteq> ''spherical'' \<and> ''toroidal'' \<noteq> ''cylindrical'' \<and>
   fits_int64 3 \<and>
   Grid_init ((- 1, 1), (- 1, 1), (- 1, 1)) (3, 3, 3) ''toroidal'' = Inr (centred_grid ''toroidal'') \<and>
   coordinates (centred_grid ''toroidal'') = Inl ValueError \<and>
   Grid_property theta_array (centred_grid ''toroidal'') = Inl ValueError \<and>
   Grid_init ((- 1, 1), (- 1, 1), (- 1, 1)) (2 ^ 63, 1, 1) ''toroidal'' = Inl OverflowError"
proof -
  have f: "fits_int64 3" "\<not> fits_int64 (2 ^ 63)" by (simp_all add: fits_int64_def)
  have t: "''toroidal'' \<noteq> ''cartesian''" "''toroidal'' \<noteq> ''spherical''"
    "''toroidal'' \<noteq> ''cylindrical''" by simp_all
  from invalid_grid_type_fails_on_access
    [OF t, of 3 3 3 "((- 1, 1), (- 1, 1), (- 1, 1))" theta_array] f(1)
  have "Grid_init ((- 1, 1), (- 1, 1), (- 1, 1)) (3, 3, 3) ''toroidal'' = Inr (centred_grid ''toroidal'') \<and>
   coordinates (centred_grid ''toroidal'') = Inl ValueError \<and>
   Grid_property theta_array (centred_grid ''toroidal'') = Inl ValueError"
    by (auto simp: Grid_init_def centred_grid_def)
  moreover from invalid_grid_type_fails_on_access
    [OF t, of "2 ^ 63" 1 1 "((- 1, 1), (- 1, 1), (- 1, 1))" theta_array] f(2)
  have "Grid_init ((- 1, 1), (- 1, 1), (- 1, 1)) (2 ^ 63, 1, 1) ''toroidal'' = Inl OverflowError"
    by simp
  ultimately show ?thesis using f(1) by simp
qed

section \<open>Halo modes: the second antisymmetric mode at the unit sphere\<close>

lemma cos_17_10_neg: "cos (17 / 10 :: real) < 0"
proof -
  obtain t where t: "cos (17 / 10 :: real) =
      (\<Sum>m<6. cos_coeff m * (17 / 10) ^ m) + (cos (t + 1 / 2 * real (6::nat) * pi) / fact 6) * (17 / 10) ^ 6"
    using Maclaurin_cos_expansion2 [of "17 / 10" 6] by auto
  have s: "(\<Sum>m<6. cos_coeff m * (17 / 10 :: real) ^ m) = 1 - (17 / 10) ^ 2 / 2 + (17 / 10) ^ 4 / 24"
  proof -
    have set: "{..<6::nat} = {0, 1, 2, 3, 4, 5}" by auto
    have c: "cos_coeff (Suc 0) = 0" "cos_coeff 2 = - 1 / 2" "cos_coeff 3 = 0"
      "cos_coeff 4 = 1 / 24" "cos_coeff 5 = 0"
      unfolding cos_coeff_def by (simp_all add: fact_numeral)
    show ?thesis
      unfolding set by (simp add: c)
  qed
  have "cos (t + 1 / 2 * real (6::nat) * pi) \<le> 1" by (rule cos_le_one)
  then have "(cos (t + 1 / 2 * real (6::nat) * pi) / fact 6) * (17 / 10) ^ 6 \<le> (1 / fact 6) * (17 / 10) ^ 6"
    by (intro mult_right_mono divide_right_mono) simp_all
  also have "\<dots> = (17 / 10) ^ 6 / 720"
    by (simp add: fact_numeral)
  finally have "cos (17 / 10 :: real) \<le> 1 - (17 / 10) ^ 2 / 2 + (17 / 10) ^ 4 / 24 + (17 / 10) ^ 6 / 720"
    using t s by linarith
  also have "\<dots> < 0" by (simp add: power_divide)
  finally show ?thesis .
qed

lemma pi_less_34_10: "pi < 34 / 10"
proof (rule ccontr)
  assume "\<not> pi < 34 / 10"
  then have "(17 / 10 :: real) \<le> pi / 2" by simp
  then have "0 \<le> cos (17 / 10 :: real)"
    by (intro cos_ge_zero) simp_all
  with cos_17_10_neg show False by simp
qed

lemma pi_ge_3: "3 \<le> pi"
proof -
  have "sin (pi / 6) \<le> pi / 6"
    by (intro sin_x_le_x) simp
  then show ?thesis by (simp add: sin_30)
qed


lemma a_2_k_trig: "sin a_2_k \<le> 0" "1 / 2 \<le> cos a_2_k"
proof -
  define u where "u = 2 * pi - a_2_k"
  have u0: "0 \<le> u" using pi_ge_3 by (simp add: u_def a_2_k_def)
  have u1: "u \<le> pi / 3" using pi_less_34_10 by (simp add: u_def a_2_k_def)
  have k: "a_2_k = 2 * pi - u" by (simp add: u_def)
  have "0 \<le> sin u"
    using u0 u1 pi_ge_zero by (intro sin_ge_zero) linarith+
  then show "sin a_2_k \<le> 0" by (simp add: k)
  have "cos (pi / 3) \<le> cos u"
    using u0 u1 pi_ge_zero by (intro cos_monotone_0_pi_le) linarith+
  then show "1 / 2 \<le> cos a_2_k" by (simp add: k cos_60)
qed

lemma a_2_X_interior_at_1:
  assumes "0 < k"
  shows "a_2_X_interior k 1 = sqrt (2 / pi) * a_2_B k 1 / sqrt k"
proof -
  have p: "k powr (3 / 2) = k * sqrt k"
  proof -
    have "k powr (3 / 2) = k powr (1 + 1 / 2)" by simp
    also have "\<dots> = k powr 1 * k powr (1 / 2)" by (rule powr_add)
    also have "\<dots> = k * sqrt k" using assms by (simp add: powr_half_sqrt)
    finally show ?thesis .
  qed
  have q: "sqrt (2 * pi * k) = sqrt (2 * pi) * sqrt k"
    by (simp add: real_sqrt_mult)
  have "a_2_A k / (sqrt (2 * pi) * sqrt k) - k * a_2_A k / sqrt (2 * pi) / (k * sqrt k) = 0"
    using assms by simp
  then have "a_2_A k / sqrt (2 * pi * k) - k * a_2_A k / sqrt (2 * pi) / (k * sqrt k) = 0"
    by (simp only: q)
  then show ?thesis
    by (simp add: a_2_X_interior_def Let_def p)
qed

lemma a_2_B_lower: "1 / 2 \<le> a_2_B a_2_k 1"
proof -
  define s where "s = sin a_2_k"
  define c where "c = cos a_2_k"
  have s: "s \<le> 0" and c: "1 / 2 \<le> c"
    using a_2_k_trig by (simp_all add: s_def c_def)
  have "a_2_B a_2_k 1 = s * (- 45 / a_2_k ^ 3 + 21 / a_2_k - a_2_k - 6) + c * (45 / a_2_k ^ 2)"
    by (simp add: a_2_B_def Let_def s_def c_def algebra_simps)
  moreover have "0 \<le> s * (- 45 / a_2_k ^ 3 + 21 / a_2_k - a_2_k - 6)"
  proof -
    have "- 45 / a_2_k ^ 3 + 21 / a_2_k - a_2_k - 6 \<le> 0"
      by (simp add: a_2_k_def power_divide)
    with s show ?thesis by (simp add: mult_nonpos_nonpos)
  qed
  moreover have "1 / 2 \<le> c * (45 / a_2_k ^ 2)"
  proof -
    have "1 \<le> 45 / a_2_k ^ 2" by (simp add: a_2_k_def power_divide)
    with c have "1 / 2 * 1 \<le> c * (45 / a_2_k ^ 2)"
      by (intro mult_mono) simp_all
    then show ?thesis by simp
  qed
  ultimately show ?thesis by linarith
qed

lemma a_2_prefactor_lower: "1 / 4 \<le> sqrt (2 / pi) / sqrt a_2_k"
proof -
  have "pi * a_2_k \<le> 32"
  proof -
    have "pi * a_2_k \<le> (34 / 10) * 6"
      using pi_less_34_10 by (intro mult_mono) (simp_all add: a_2_k_def)
    then show ?thesis by simp
  qed
  moreover have "0 < pi * a_2_k" by (simp add: a_2_k_def)
  ultimately have "1 / 16 \<le> 2 / (pi * a_2_k)"
    by (simp add: field_simps)
  then have "sqrt (1 / 16) \<le> sqrt (2 / (pi * a_2_k))"
    by (simp only: real_sqrt_le_iff)
  moreover have "sqrt (1 / 16) = 1 / 4"
    by (rule real_sqrt_unique) (simp_all add: power2_eq_square)
  moreover have "sqrt (2 / (pi * a_2_k)) = sqrt (2 / pi) / sqrt a_2_k"
    by (simp add: real_sqrt_divide real_sqrt_mult)
  ultimately show ?thesis by simp
qed

lemma a_2_X_interior_lower: "1 / 8 \<le> a_2_X_interior a_2_k 1"
proof -
  have k: "0 < a_2_k" by (simp add: a_2_k_def)
  have "1 / 4 * (1 / 2) \<le> (sqrt (2 / pi) / sqrt a_2_k) * a_2_B a_2_k 1"
    by (rule mult_mono [OF a_2_prefactor_lower a_2_B_lower])
       (use a_2_prefactor_lower in linarith, simp)
  then show ?thesis
    by (simp add: a_2_X_interior_at_1 [OF k])
qed

lemma get_B_a_2_Btheta_at:
  "fst (snd (get_B_a_2 S r theta phi C k)) i =
     a_2_Btheta C (r i) (theta i)
       (if r i \<le> 1 then a_2_X_interior k (r i) else a_2_X_exterior k (r i))"
  by (simp add: get_B_a_2_def Let_def)

text \<open>
  Claim C2 requires every component of each of the eight modes to be continuous across
  \<open>r = 1\<close> within \<open>10\<^sup>-\<^sup>6\<close>. The polar component of the second antisymmetric mode is not:
  at \<open>theta = pi/2\<close> and with the default constants, the interior branch evaluated at
  \<open>r = 1\<close> and the exterior branch evaluated at \<open>r = 1\<close> differ by more than \<open>10\<^sup>-\<^sup>6\<close>
  (by more than \<open>1/32\<close>, in fact). On arrays the function returns at least \<open>1/32\<close> where
  \<open>r = 1\<close> and exactly \<open>0\<close> where \<open>r = 1 + 10\<^sup>-\<^sup>9\<close>. The exterior branch of the source is the
  constant \<open>0.0\<close>, the decaying formula being commented out under a note that the mode
  needs checking.
\<close>

theorem get_B_a_2_Btheta_jump:
  "1 / 10 ^ 6 <
     \<bar>a_2_Btheta a_2_C 1 (pi / 2) (a_2_X_interior a_2_k 1)
      - a_2_Btheta a_2_C 1 (pi / 2) (a_2_X_exterior a_2_k 1)\<bar>
   \<and> 1 / 32 \<le> fst (snd (get_B_a_2 S (\<lambda>i. 1) (\<lambda>i. pi / 2) phi a_2_C a_2_k)) i
   \<and> fst (snd (get_B_a_2 S (\<lambda>i. 1 + 1 / 10 ^ 9) (\<lambda>i. pi / 2) phi a_2_C a_2_k)) i = 0"
proof -
  have i: "a_2_Btheta a_2_C 1 (pi / 2) (a_2_X_interior a_2_k 1) = a_2_X_interior a_2_k 1 / 4"
    by (simp add: a_2_Btheta_def a_2_C_def)
  have e: "a_2_Btheta a_2_C 1 (pi / 2) (a_2_X_exterior a_2_k 1) = 0"
    by (simp add: a_2_Btheta_def a_2_X_exterior_def)
  have "1 / 10 ^ 6 <
     \<bar>a_2_Btheta a_2_C 1 (pi / 2) (a_2_X_interior a_2_k 1)
      - a_2_Btheta a_2_C 1 (pi / 2) (a_2_X_exterior a_2_k 1)\<bar>"
    unfolding i e using a_2_X_interior_lower by simp
  moreover have "1 / 32 \<le> fst (snd (get_B_a_2 S (\<lambda>i. 1) (\<lambda>i. pi / 2) phi a_2_C a_2_k)) i"
    unfolding get_B_a_2_Btheta_at using a_2_X_interior_lower by (simp add: i)
  moreover have "fst (snd (get_B_a_2 S (\<lambda>i. 1 + 1 / 10 ^ 9) (\<lambda>i. pi / 2) phi a_2_C a_2_k)) i = 0"
    unfolding get_B_a_2_Btheta_at by (simp add: a_2_Btheta_def a_2_X_exterior_def)
  ultimately show ?thesis by blast
qed

section \<open>Disk field: the integrand of the normalization\<close>

lemma unnormalized_at:
  "fst (get_B_disk_cyl_unnormalized S r phi z kn p) i =
     Ralpha_d p * j1 S (kn * r i)
       * (cos (pi * z i / 2) + 3 * cos (3 * pi * z i / 2) / (4 * pi powr 1.5 * sqrt (- D_d p)))"
  "fst (snd (get_B_disk_cyl_unnormalized S r phi z kn p)) i =
     - 2 * j1 S (kn * r i) * sqrt (- D_d p / pi) * cos (pi * z i / 2)"
  "snd (snd (get_B_disk_cyl_unnormalized S r phi z kn p)) i =
     - 2 * Ralpha_d p / pi
       * (j1 S (kn * r i) + 0.5 * kn * r i * (j0 S (kn * r i) - jv S 2 (kn * r i)))
       * (sin (pi * z i / 2) + sin (3 * pi * z i / 2) / (4 * pi powr 1.5 * sqrt (- D_d p)))"
  by (simp_all add: get_B_disk_cyl_unnormalized_def Let_def)

lemma intregrand_eq:
  "intregrand_compute_normalization S r phi z kn p =
     r * (fst (get_B_disk_cyl_unnormalized S (\<lambda>u::unit. r) (\<lambda>u. phi) (\<lambda>u. z) kn p) ()) ^ 2
     + (fst (snd (get_B_disk_cyl_unnormalized S (\<lambda>u::unit. r) (\<lambda>u. phi) (\<lambda>u. z) kn p)) ()) ^ 2
     + (snd (snd (get_B_disk_cyl_unnormalized S (\<lambda>u::unit. r) (\<lambda>u. phi) (\<lambda>u. z) kn p)) ()) ^ 2"
  by (simp add: intregrand_compute_normalization_def power2_eq_square split: prod.splits)

lemma intregrand_gap:
  "intregrand_compute_normalization S r phi z kn p
     - r * ((fst (get_B_disk_cyl_unnormalized S (\<lambda>u::unit. r) (\<lambda>u. phi) (\<lambda>u. z) kn p) ()) ^ 2
            + (fst (snd (get_B_disk_cyl_unnormalized S (\<lambda>u::unit. r) (\<lambda>u. phi) (\<lambda>u. z) kn p)) ()) ^ 2
            + (snd (snd (get_B_disk_cyl_unnormalized S (\<lambda>u::unit. r) (\<lambda>u. phi) (\<lambda>u. z) kn p)) ()) ^ 2)
   = (1 - r)
       * ((fst (snd (get_B_disk_cyl_unnormalized S (\<lambda>u::unit. r) (\<lambda>u. phi) (\<lambda>u. z) kn p)) ()) ^ 2
          + (snd (snd (get_B_disk_cyl_unnormalized S (\<lambda>u::unit. r) (\<lambda>u. phi) (\<lambda>u. z) kn p)) ()) ^ 2)"
  unfolding intregrand_eq by (simp add: algebra_simps)

lemma series_special_sel [simp]:
  "j0 series_special = bessel_J 0" "j1 series_special = bessel_J 1"
  by (simp_all add: series_special_def)

lemma unit_params_sel [simp]:
  "D_d unit_params = - 1" "Ralpha_d unit_params = 1" "Cn_d unit_params = [1]"
  by (simp_all add: unit_params_def)

text \<open>
  Claim C1 says that the integrand of the normalization is \<open>r\<close> times the sum of the
  three squared components. The source's return line has no parentheses, so only the
  radial square is weighted by \<open>r\<close> (lemma \<open>intregrand_gap\<close>: the integrand exceeds the
  claimed value by \<open>(1 - r) * (Bphi\<^sup>2 + Bz\<^sup>2)\<close>, for every input). At \<open>r = 1/2\<close>,
  \<open>phi = 0\<close>, \<open>z = 0\<close>, \<open>kn = 2\<close> and the unit parameter set, with the Bessel series for
  \<^verbatim>\<open>j1\<close>, the two differ by \<open>2 J\<^sub>1(1)\<^sup>2 / pi\<close>, which is positive.
\<close>

theorem intregrand_weights_only_Br:
  "intregrand_compute_normalization series_special (1 / 2) 0 0 2 unit_params
     - (1 / 2)
       * ((fst (get_B_disk_cyl_unnormalized series_special (\<lambda>u::unit. 1 / 2) (\<lambda>u. 0) (\<lambda>u. 0) 2 unit_params) ()) ^ 2
          + (fst (snd (get_B_disk_cyl_unnormalized series_special (\<lambda>u::unit. 1 / 2) (\<lambda>u. 0) (\<lambda>u. 0) 2 unit_params)) ()) ^ 2
          + (snd (snd (get_B_disk_cyl_unnormalized series_special (\<lambda>u::unit. 1 / 2) (\<lambda>u. 0) (\<lambda>u. 0) 2 unit_params)) ()) ^ 2)
     = 2 * (bessel_J 1 1) ^ 2 / pi
   \<and> 0 < 2 * (bessel_J 1 1) ^ 2 / pi"
proof -
  have "0 < bessel_J 1 1" by (rule bessel_J1_pos) simp_all
  then have "0 < 2 * (bessel_J 1 1) ^ 2 / pi" by simp
  moreover have "(sqrt (1 / pi)) ^ 2 = 1 / pi" by simp
  ultimately show ?thesis
    unfolding intregrand_gap
    by (simp add: unnormalized_at power_mult_distrib real_sqrt_divide power_divide)
qed

section \<open>Disk field: the cache of normalizations and the mask\<close>

lemma component_cached:
  assumes "B_norm s kn = Some n"
  shows "get_B_disk_cyl_component nq S r phi z kn p s =
     (Inr (case get_B_disk_cyl_unnormalized S r phi z kn p of
             (Br, Bphi, Bz) \<Rightarrow> ((\<lambda>i. n * Br i), (\<lambda>i. n * Bphi i), (\<lambda>i. n * Bz i))), s)"
  using assms by (simp add: get_B_disk_cyl_component_def split: prod.splits)

lemma component_uncached:
  assumes "B_norm s kn = None" and "compute_normalization nq S kn p = Inr n"
  shows "get_B_disk_cyl_component nq S r phi z kn p s =
     (Inr (case get_B_disk_cyl_unnormalized S r phi z kn p of
             (Br, Bphi, Bz) \<Rightarrow> ((\<lambda>i. n * Br i), (\<lambda>i. n * Bphi i), (\<lambda>i. n * Bz i))),
      s\<lparr>B_norm := (B_norm s)(kn \<mapsto> n), nquad_calls := Suc (nquad_calls s)\<rparr>)"
  using assms by (simp add: get_B_disk_cyl_component_def split: prod.splits)

lemma component_uncached_error:
  assumes "B_norm s kn = None" and "compute_normalization nq S kn p = Inl e"
  shows "get_B_disk_cyl_component nq S r phi z kn p s =
     (Inl e, s\<lparr>nquad_calls := Suc (nquad_calls s)\<rparr>)"
  using assms by (simp add: get_B_disk_cyl_component_def)

lemma component_returns_cached:
  assumes "get_B_disk_cyl_component nq S r phi z kn p s = (Inr B, s1)"
  shows "\<exists>n. B_norm s1 kn = Some n \<and>
     B = (case get_B_disk_cyl_unnormalized S r phi z kn p of
            (Br, Bphi, Bz) \<Rightarrow> ((\<lambda>i. n * Br i), (\<lambda>i. n * Bphi i), (\<lambda>i. n * Bz i)))"
proof (cases "B_norm s kn")
  case None
  show ?thesis
  proof (cases "compute_normalization nq S kn p")
    case (Inl e)
    with assms None show ?thesis by (simp add: component_uncached_error)
  next
    case (Inr n)
    with assms None show ?thesis by (auto simp: component_uncached)
  qed
next
  case (Some n)
  with assms show ?thesis by (auto simp: component_cached)
qed

lemma cache_entry_persists:
  assumes "B_norm s kn = Some n"
  shows "B_norm (snd (get_B_disk_cyl_component nq S r phi z kn' p s)) kn = Some n"
proof (cases "B_norm s kn'")
  case None
  then have "kn' \<noteq> kn" using assms by auto
  with None assms show ?thesis
    by (cases "compute_normalization nq S kn' p")
       (simp_all add: component_uncached component_uncached_error)
next
  case (Some m)
  with assms show ?thesis by (simp add: component_cached)
qed

text \<open>
  Claim C8, amended. Once a call of \<^verbatim>\<open>get_B_disk_cyl_component\<close> with the wavenumber
  \<open>kn\<close> has returned, \<^verbatim>\<open>B_norm\<close> holds a factor \<open>n\<close> for \<open>kn\<close> and the field returned is
  the unnormalized field times \<open>n\<close>; a following call with the same \<open>kn\<close> (whatever its
  arrays, its parameter set, and whatever the integrator would answer) returns its
  unnormalized field times the same \<open>n\<close> and leaves the state as it was, so the ghost
  counter of integrations does not move; and a call with any wavenumber keeps the
  entry of \<open>kn\<close>, so the factor of \<open>kn\<close> is never computed again. Calls are sequential.
\<close>

theorem normalization_cached_after_first_call:
  assumes "get_B_disk_cyl_component nq S r phi z kn p s = (Inr B, s1)"
  shows "\<exists>n. B_norm s1 kn = Some n \<and>
     B = (case get_B_disk_cyl_unnormalized S r phi z kn p of
            (Br, Bphi, Bz) \<Rightarrow> ((\<lambda>i. n * Br i), (\<lambda>i. n * Bphi i), (\<lambda>i. n * Bz i))) \<and>
     get_B_disk_cyl_component nq' S' r' phi' z' kn p' s1 =
       (Inr (case get_B_disk_cyl_unnormalized S' r' phi' z' kn p' of
               (Br, Bphi, Bz) \<Rightarrow> ((\<lambda>i. n * Br i), (\<lambda>i. n * Bphi i), (\<lambda>i. n * Bz i))), s1) \<and>
     nquad_calls (snd (get_B_disk_cyl_component nq' S' r' phi' z' kn p' s1)) = nquad_calls s1 \<and>
     B_norm (snd (get_B_disk_cyl_component nq' S' r' phi' z' kn' p' s1)) kn = Some n"
proof -
  from component_returns_cached [OF assms] obtain n where n: "B_norm s1 kn = Some n"
    and B: "B = (case get_B_disk_cyl_unnormalized S r phi z kn p of
            (Br, Bphi, Bz) \<Rightarrow> ((\<lambda>i. n * Br i), (\<lambda>i. n * Bphi i), (\<lambda>i. n * Bz i)))"
    by blast
  show ?thesis
    using n B cache_entry_persists [OF n] by (simp add: component_cached [OF n])
qed

text \<open>
  Claim C4. Whenever \<^verbatim>\<open>get_B_disk_cyl\<close> returns a field, the three components are
  exactly zero at every sample point where \<open>\<bar>z\<bar> > 1\<close>, whatever the coefficients, the
  wavenumbers, the integrator and the state of the cache.
\<close>

theorem disk_field_vanishes_outside:
  assumes "get_B_disk_cyl nq S r phi z p s = (Inr (Br, Bphi, Bz), s')"
    and "\<bar>z i\<bar> > 1"
  shows "Br i = 0 \<and> Bphi i = 0 \<and> Bz i = 0"
  using assms
  by (auto simp: get_B_disk_cyl_def Let_def setitem_mask_def
      split: sum.splits prod.splits option.splits)


lemma compute_normalization_midpoint:
  "compute_normalization midpoint_nquad S kn p =
     pow_minus_half (4 * pi * intregrand_compute_normalization S (1 / 2) pi 0 kn p)"
  by (simp add: compute_normalization_def midpoint_nquad_def Let_def)

lemma intregrand_midpoint:
  assumes "D_d p = - 1"
  shows "intregrand_compute_normalization S (1 / 2) pi 0 kn p =
     (j1 S (kn * (1 / 2))) ^ 2
       * ((Ralpha_d p) ^ 2 * (1 + 3 / (4 * pi powr 1.5)) ^ 2 / 2 + 4 / pi)"
proof -
  define a where "a = 1 + 3 / (4 * pi powr 1.5)"
  define J where "J = j1 S (kn * (1 / 2))"
  have br: "fst (get_B_disk_cyl_unnormalized S (\<lambda>u::unit. 1 / 2) (\<lambda>u. pi) (\<lambda>u. 0) kn p) ()
      = Ralpha_d p * J * a"
    by (simp add: unnormalized_at assms a_def J_def)
  have bphi: "fst (snd (get_B_disk_cyl_unnormalized S (\<lambda>u::unit. 1 / 2) (\<lambda>u. pi) (\<lambda>u. 0) kn p)) ()
      = - 2 * J * sqrt (1 / pi)"
    by (simp add: unnormalized_at assms J_def)
  have bz: "snd (snd (get_B_disk_cyl_unnormalized S (\<lambda>u::unit. 1 / 2) (\<lambda>u. pi) (\<lambda>u. 0) kn p)) ()
      = 0"
    by (simp add: unnormalized_at)
  have sq: "(sqrt (1 / pi)) ^ 2 = 1 / pi" by simp
  have "intregrand_compute_normalization S (1 / 2) pi 0 kn p
      = 1 / 2 * (Ralpha_d p * J * a) ^ 2 + (- 2 * J * sqrt (1 / pi)) ^ 2 + 0 ^ 2"
    unfolding intregrand_eq br bphi bz ..
  also have "\<dots> = 1 / 2 * ((Ralpha_d p) ^ 2 * J ^ 2 * a ^ 2) + 4 * J ^ 2 * (1 / pi)"
    by (simp only: power_mult_distrib sq) simp
  also have "\<dots> = J ^ 2 * ((Ralpha_d p) ^ 2 * a ^ 2 / 2 + 4 / pi)"
    by (simp add: algebra_simps)
  finally show ?thesis by (simp only: a_def J_def)
qed

lemma midpoint_weight_pos: "0 < R ^ 2 * (1 + 3 / (4 * pi powr 1.5)) ^ 2 / 2 + 4 / pi" for R :: real
proof -
  have "0 \<le> R ^ 2 * (1 + 3 / (4 * pi powr 1.5)) ^ 2 / 2" by simp
  moreover have "0 < 4 / pi" by simp
  ultimately show ?thesis by linarith
qed

lemma compute_normalization_midpoint_value:
  assumes "D_d p = - 1" and "j1 S (kn * (1 / 2)) \<noteq> 0"
  shows "0 < 4 * pi * intregrand_compute_normalization S (1 / 2) pi 0 kn p"
    and "compute_normalization midpoint_nquad S kn p =
      Inr ((4 * pi * intregrand_compute_normalization S (1 / 2) pi 0 kn p) powr (- 0.5))"
proof -
  have "0 < (j1 S (kn * (1 / 2))) ^ 2" using assms(2) by simp
  then have "0 < intregrand_compute_normalization S (1 / 2) pi 0 kn p"
    unfolding intregrand_midpoint [OF assms(1)]
    by (intro mult_pos_pos midpoint_weight_pos)
  then show pos: "0 < 4 * pi * intregrand_compute_normalization S (1 / 2) pi 0 kn p"
    by simp
  define v where "v = 4 * pi * intregrand_compute_normalization S (1 / 2) pi 0 kn p"
  from pos have "0 < v" by (simp only: v_def)
  then have "v \<noteq> 0" "\<not> v < 0" by simp_all
  then have "pow_minus_half v = Inr (v powr (- 0.5))"
    by (simp add: pow_minus_half_def)
  then show "compute_normalization midpoint_nquad S kn p =
      Inr ((4 * pi * intregrand_compute_normalization S (1 / 2) pi 0 kn p) powr (- 0.5))"
    unfolding compute_normalization_midpoint v_def .
qed

lemma series_J1_at_1: "j1 series_special (2 * (1 / 2)) \<noteq> 0"
  using bessel_J1_pos [of 1] by simp

lemma series_J1_at_first_zero_half: "j1 series_special (3.8317059702 * (1 / 2)) \<noteq> 0"
  using bessel_J1_pos [of "3.8317059702 * (1 / 2)"] by simp

theorem normalization_cached_after_first_call_witness:
  "(case get_B_disk_cyl_component midpoint_nquad series_special
           (\<lambda>i::nat. 1 / 2) (\<lambda>i. 0) (\<lambda>i. 0) 2 unit_params empty_state of
      (Inr B, s1) \<Rightarrow>
        nquad_calls s1 = 1 \<and>
        get_B_disk_cyl_component midpoint_nquad series_special
           (\<lambda>i::nat. 1 / 2) (\<lambda>i. 0) (\<lambda>i. 0) 2 unit_params s1 = (Inr B, s1)
    | (Inl e, s1) \<Rightarrow> False)"
proof -
  obtain n where n: "compute_normalization midpoint_nquad series_special 2 unit_params = Inr n"
    using compute_normalization_midpoint_value(2) [of unit_params series_special 2] series_J1_at_1
    by simp
  have e: "B_norm empty_state 2 = None" by (simp add: empty_state_def)
  define s1 where "s1 = empty_state\<lparr>B_norm := (B_norm empty_state)(2 \<mapsto> n),
      nquad_calls := Suc (nquad_calls empty_state)\<rparr>"
  define B where "B = (case get_B_disk_cyl_unnormalized series_special
        (\<lambda>i::nat. 1 / 2) (\<lambda>i. 0) (\<lambda>i. 0) 2 unit_params of
      (Br, Bphi, Bz) \<Rightarrow> ((\<lambda>i. n * Br i), (\<lambda>i. n * Bphi i), (\<lambda>i. n * Bz i)))"
  have first: "get_B_disk_cyl_component midpoint_nquad series_special
           (\<lambda>i::nat. 1 / 2) (\<lambda>i. 0) (\<lambda>i. 0) 2 unit_params empty_state = (Inr B, s1)"
    unfolding B_def s1_def by (rule component_uncached [OF e n])
  have calls: "nquad_calls s1 = 1"
    by (simp add: s1_def empty_state_def)
  from normalization_cached_after_first_call [OF first,
      of midpoint_nquad series_special "\<lambda>i::nat. 1 / 2" "\<lambda>i. 0" "\<lambda>i. 0" unit_params]
  have "get_B_disk_cyl_component midpoint_nquad series_special
           (\<lambda>i::nat. 1 / 2) (\<lambda>i. 0) (\<lambda>i. 0) 2 unit_params s1 = (Inr B, s1)"
    by auto
  with calls show ?thesis by (simp add: first)
qed

lemma bessel_J1_zero: "bessel_J 1 0 = 0" "bessel_J (Suc 0) 0 = 0"
  by (simp_all add: bessel_J_def)

lemma compute_normalization_at_zero:
  "compute_normalization midpoint_nquad series_special 0 unit_params = Inl ZeroDivisionError"
proof -
  have "intregrand_compute_normalization series_special (1 / 2) pi 0 0 unit_params = 0"
    unfolding intregrand_eq by (simp add: unnormalized_at bessel_J1_zero)
  then show ?thesis
    unfolding compute_normalization_midpoint by (simp add: pow_minus_half_def)
qed

text \<open>
  Claim C8 as stated (for every wavenumber, the second of two successive calls does not
  integrate) fails where the first call raises. At \<open>kn = 0\<close> the unnormalized field
  vanishes, the integral is zero and \<^verbatim>\<open>tmp[0]**(-0.5)\<close> raises \<^verbatim>\<open>ZeroDivisionError\<close>
  before anything is stored; the second call finds no entry and integrates again, so
  the ghost counter reaches 2.
\<close>

theorem failed_normalization_not_cached_counterexample:
  "get_B_disk_cyl_component midpoint_nquad series_special (\<lambda>i::nat. 1 / 2) (\<lambda>i. 0) (\<lambda>i. 0) 0
      unit_params empty_state
     = (Inl ZeroDivisionError, \<lparr>B_norm = Map.empty, nquad_calls = 1\<rparr>) \<and>
   get_B_disk_cyl_component midpoint_nquad series_special (\<lambda>i::nat. 1 / 2) (\<lambda>i. 0) (\<lambda>i. 0) 0
      unit_params \<lparr>B_norm = Map.empty, nquad_calls = 1\<rparr>
     = (Inl ZeroDivisionError, \<lparr>B_norm = Map.empty, nquad_calls = 2\<rparr>)"
proof -
  have e: "B_norm s 0 = None" if "B_norm s = Map.empty" for s :: disk_state
    using that by simp
  have "get_B_disk_cyl_component midpoint_nquad series_special (\<lambda>i::nat. 1 / 2) (\<lambda>i. 0) (\<lambda>i. 0) 0
      unit_params empty_state
     = (Inl ZeroDivisionError, \<lparr>B_norm = Map.empty, nquad_calls = 1\<rparr>)"
    by (simp add: component_uncached_error [OF e compute_normalization_at_zero] empty_state_def)
  moreover have "get_B_disk_cyl_component midpoint_nquad series_special (\<lambda>i::nat. 1 / 2) (\<lambda>i. 0) (\<lambda>i. 0) 0
      unit_params \<lparr>B_norm = Map.empty, nquad_calls = 1\<rparr>
     = (Inl ZeroDivisionError, \<lparr>B_norm = Map.empty, nquad_calls = 2\<rparr>)"
    by (simp add: component_uncached_error [OF e compute_normalization_at_zero])
  ultimately show ?thesis by blast
qed

lemma disk_loop_single:
  assumes "get_B_disk_cyl_component nq S r phi z kn p s = (Inr Bt, s1)"
  shows "\<exists>F. disk_loop nq S r phi z p 0 [(kn, Cn)] None s = (Inr (Some F), s1)"
  using assms by (cases Bt) (simp split: prod.splits)

lemma disk_run_returns:
  "\<exists>Br Bphi Bz s'. get_B_disk_cyl midpoint_nquad series_special r phi z unit_params empty_state
      = (Inr (Br, Bphi, Bz), s')"
proof -
  define k :: real where "k = 3.8317059702"
  have j: "j1 series_special (k * (1 / 2)) \<noteq> 0"
    unfolding k_def by (rule series_J1_at_first_zero_half)
  obtain n where n: "compute_normalization midpoint_nquad series_special k unit_params = Inr n"
    using compute_normalization_midpoint_value(2) [of unit_params series_special k] j
    by simp
  have e: "B_norm empty_state k = None" by (simp add: empty_state_def)
  have z: "jn_zeros series_special 1 (length (Cn_d unit_params)) = Inr [k]"
    by (simp add: series_special_def J1_zero_table_def k_def)
  have zp: "zip [k] (Cn_d unit_params) = [(k, 1)]" by simp
  from disk_loop_single [OF component_uncached [OF e n], of r phi z 1]
  obtain F s1 where F: "disk_loop midpoint_nquad series_special r phi z unit_params 0 [(k, 1)] None
      empty_state = (Inr (Some F), s1)"
    by blast
  obtain Br Bphi Bz where "F = (Br, Bphi, Bz)" by (cases F) auto
  with F show ?thesis
    unfolding get_B_disk_cyl_def Let_def z zp by simp
qed

theorem disk_field_vanishes_outside_witness:
  "\<bar>2::real\<bar> > 1 \<and>
   (case get_B_disk_cyl midpoint_nquad series_special (\<lambda>i::nat. 1 / 2) (\<lambda>i. 0) (\<lambda>i. 2)
           unit_params empty_state of
      (Inr (Br, Bphi, Bz), s') \<Rightarrow> Br 0 = 0 \<and> Bphi 0 = 0 \<and> Bz 0 = 0
    | (Inl e, s') \<Rightarrow> False)"
proof -
  obtain Br Bphi Bz s' where run:
    "get_B_disk_cyl midpoint_nquad series_special (\<lambda>i::nat. 1 / 2) (\<lambda>i. 0) (\<lambda>i. 2)
           unit_params empty_state = (Inr (Br, Bphi, Bz), s')"
    using disk_run_returns by blast
  have "Br 0 = 0 \<and> Bphi 0 = 0 \<and> Bz 0 = 0"
    by (rule disk_field_vanishes_outside [OF run]) simp
  then show ?thesis by (simp add: run)
qed


text \<open>
  Claim C9. The cache is keyed by \<open>kn\<close> alone while the factor depends on the parameter
  set. Let \<open>kn\<close> be absent from the cache and let the normalizations \<open>n1\<close> of \<open>p1\<close> and
  \<open>n2\<close> of \<open>p2\<close> differ. Then a call with \<open>p2\<close> made after a call with \<open>p1\<close> returns
  the unnormalized field of \<open>p2\<close> times \<open>n1\<close>, the same call on the original state
  returns it times \<open>n2\<close>, and the two results differ wherever the radial component is
  not zero. The witness is the pair \<open>Ralpha_d = 1\<close>, \<open>Ralpha_d = 2\<close> on the empty cache.
\<close>

theorem stale_normalization_across_parameter_sets:
  assumes "B_norm s kn = None"
    and "compute_normalization nq S kn p1 = Inr n1"
    and "compute_normalization nq S kn p2 = Inr n2"
    and "n1 \<noteq> n2"
    and "fst (get_B_disk_cyl_unnormalized S r phi z kn p2) i \<noteq> 0"
  shows "fst (get_B_disk_cyl_component nq S r phi z kn p2
                (snd (get_B_disk_cyl_component nq S r phi z kn p1 s))) =
           Inr (case get_B_disk_cyl_unnormalized S r phi z kn p2 of
                  (Br, Bphi, Bz) \<Rightarrow> ((\<lambda>i. n1 * Br i), (\<lambda>i. n1 * Bphi i), (\<lambda>i. n1 * Bz i)))
       \<and> fst (get_B_disk_cyl_component nq S r phi z kn p2 s) =
           Inr (case get_B_disk_cyl_unnormalized S r phi z kn p2 of
                  (Br, Bphi, Bz) \<Rightarrow> ((\<lambda>i. n2 * Br i), (\<lambda>i. n2 * Bphi i), (\<lambda>i. n2 * Bz i)))
       \<and> fst (get_B_disk_cyl_component nq S r phi z kn p2
                (snd (get_B_disk_cyl_component nq S r phi z kn p1 s)))
           \<noteq> fst (get_B_disk_cyl_component nq S r phi z kn p2 s)
       \<and> p1 \<noteq> p2"
proof -
  let ?s1 = "s\<lparr>B_norm := (B_norm s)(kn \<mapsto> n1), nquad_calls := Suc (nquad_calls s)\<rparr>"
  have s1: "snd (get_B_disk_cyl_component nq S r phi z kn p1 s) = ?s1"
    by (simp add: component_uncached [OF assms(1,2)])
  have c: "B_norm ?s1 kn = Some n1" by simp
  have after: "fst (get_B_disk_cyl_component nq S r phi z kn p2
                (snd (get_B_disk_cyl_component nq S r phi z kn p1 s))) =
           Inr (case get_B_disk_cyl_unnormalized S r phi z kn p2 of
                  (Br, Bphi, Bz) \<Rightarrow> ((\<lambda>i. n1 * Br i), (\<lambda>i. n1 * Bphi i), (\<lambda>i. n1 * Bz i)))"
    unfolding s1 by (simp add: component_cached [OF c])
  have fresh: "fst (get_B_disk_cyl_component nq S r phi z kn p2 s) =
           Inr (case get_B_disk_cyl_unnormalized S r phi z kn p2 of
                  (Br, Bphi, Bz) \<Rightarrow> ((\<lambda>i. n2 * Br i), (\<lambda>i. n2 * Bphi i), (\<lambda>i. n2 * Bz i)))"
    by (simp add: component_uncached [OF assms(1,3)])
  obtain Br Bphi Bz where B: "get_B_disk_cyl_unnormalized S r phi z kn p2 = (Br, Bphi, Bz)"
    by (cases "get_B_disk_cyl_unnormalized S r phi z kn p2") auto
  have "n1 * Br i \<noteq> n2 * Br i"
    using assms(4,5) by (simp add: B)
  then have "(\<lambda>i. n1 * Br i) \<noteq> (\<lambda>i. n2 * Br i)"
    by (metis (no_types))
  then have differ: "fst (get_B_disk_cyl_component nq S r phi z kn p2
                (snd (get_B_disk_cyl_component nq S r phi z kn p1 s)))
           \<noteq> fst (get_B_disk_cyl_component nq S r phi z kn p2 s)"
    unfolding after fresh by (simp add: B)
  have "p1 \<noteq> p2" using assms(2,3,4) by auto
  with after fresh differ show ?thesis by blast
qed

lemma series_normalizations_differ:
  "\<exists>n1 n2. compute_normalization midpoint_nquad series_special 2 unit_params = Inr n1 \<and>
     compute_normalization midpoint_nquad series_special 2 (unit_params\<lparr>Ralpha_d := 2\<rparr>) = Inr n2 \<and>
     n1 \<noteq> n2"
proof -
  define a where "a = 1 + 3 / (4 * pi powr 1.5)"
  define J where "J = j1 series_special (2 * (1 / 2))"
  define I1 where "I1 = intregrand_compute_normalization series_special (1 / 2) pi 0 2 unit_params"
  define I2 where "I2 = intregrand_compute_normalization series_special (1 / 2) pi 0 2
      (unit_params\<lparr>Ralpha_d := 2\<rparr>)"
  have d: "D_d unit_params = - 1" "D_d (unit_params\<lparr>Ralpha_d := 2\<rparr>) = - 1" by simp_all
  have J: "0 < J ^ 2" using series_J1_at_1 by (simp add: J_def)
  have a: "0 < a ^ 2"
  proof -
    have "0 \<le> 3 / (4 * pi powr 1.5)" by simp
    then have "0 < a" unfolding a_def by linarith
    then show ?thesis by simp
  qed
  have i1: "I1 = J ^ 2 * (1 ^ 2 * a ^ 2 / 2 + 4 / pi)"
    unfolding I1_def J_def a_def using intregrand_midpoint [OF d(1), of series_special 2] by simp
  have i2: "I2 = J ^ 2 * (2 ^ 2 * a ^ 2 / 2 + 4 / pi)"
    unfolding I2_def J_def a_def using intregrand_midpoint [OF d(2), of series_special 2] by simp
  have "1 ^ 2 * a ^ 2 / 2 + 4 / pi < 2 ^ 2 * a ^ 2 / 2 + 4 / pi"
    using a by simp
  then have lt: "I1 < I2" unfolding i1 i2 using J by (rule mult_strict_left_mono)
  have p1: "0 < 4 * pi * I1"
    unfolding I1_def by (rule compute_normalization_midpoint_value(1) [OF d(1) series_J1_at_1])
  have n1: "compute_normalization midpoint_nquad series_special 2 unit_params
      = Inr ((4 * pi * I1) powr (- 0.5))"
    unfolding I1_def by (rule compute_normalization_midpoint_value(2) [OF d(1) series_J1_at_1])
  have n2: "compute_normalization midpoint_nquad series_special 2 (unit_params\<lparr>Ralpha_d := 2\<rparr>)
      = Inr ((4 * pi * I2) powr (- 0.5))"
    unfolding I2_def by (rule compute_normalization_midpoint_value(2) [OF d(2) series_J1_at_1])
  have "4 * pi * I1 < 4 * pi * I2" using lt by simp
  then have "(4 * pi * I2) powr (- 0.5) < (4 * pi * I1) powr (- 0.5)"
    using p1 by (intro powr_less_mono2_neg) simp_all
  then have "(4 * pi * I1) powr (- 0.5) \<noteq> (4 * pi * I2) powr (- 0.5)" by simp
  with n1 n2 show ?thesis by blast
qed

theorem stale_normalization_across_parameter_sets_witness:
  "B_norm empty_state 2 = None \<and>
   (\<exists>n1 n2. compute_normalization midpoint_nquad series_special 2 unit_params = Inr n1 \<and>
      compute_normalization midpoint_nquad series_special 2 (unit_params\<lparr>Ralpha_d := 2\<rparr>) = Inr n2 \<and>
      n1 \<noteq> n2) \<and>
   fst (get_B_disk_cyl_unnormalized series_special (\<lambda>i::nat. 1 / 2) (\<lambda>i. 0) (\<lambda>i. 0) 2
          (unit_params\<lparr>Ralpha_d := 2\<rparr>)) 0 \<noteq> 0 \<and>
   fst (get_B_disk_cyl_component midpoint_nquad series_special (\<lambda>i::nat. 1 / 2) (\<lambda>i. 0) (\<lambda>i. 0) 2
          (unit_params\<lparr>Ralpha_d := 2\<rparr>)
          (snd (get_B_disk_cyl_component midpoint_nquad series_special
                  (\<lambda>i::nat. 1 / 2) (\<lambda>i. 0) (\<lambda>i. 0) 2 unit_params empty_state)))
     \<noteq> fst (get_B_disk_cyl_component midpoint_nquad series_special (\<lambda>i::nat. 1 / 2) (\<lambda>i. 0) (\<lambda>i. 0) 2
          (unit_params\<lparr>Ralpha_d := 2\<rparr>) empty_state) \<and>
   unit_params \<noteq> unit_params\<lparr>Ralpha_d := 2\<rparr>"
proof -
  have e: "B_norm empty_state 2 = None" by (simp add: empty_state_def)
  obtain n1 n2 where n:
    "compute_normalization midpoint_nquad series_special 2 unit_params = Inr n1"
    "compute_normalization midpoint_nquad series_special 2 (unit_params\<lparr>Ralpha_d := 2\<rparr>) = Inr n2"
    "n1 \<noteq> n2"
    using series_normalizations_differ by blast
  have b: "fst (get_B_disk_cyl_unnormalized series_special (\<lambda>i::nat. 1 / 2) (\<lambda>i. 0) (\<lambda>i. 0) 2
          (unit_params\<lparr>Ralpha_d := 2\<rparr>)) 0 \<noteq> 0"
  proof -
    have "0 \<le> 3 / (4 * pi powr 1.5)" by simp
    then have "1 + 3 / (4 * pi powr 1.5) \<noteq> 0" by linarith
    then show ?thesis
      using series_J1_at_1 by (simp add: unnormalized_at)
  qed
  from stale_normalization_across_parameter_sets [OF e n b] e n b
  show ?thesis by blast
qed

end
